theory Spec2Isabelle
  imports Complex_Main
begin

section \<open>JavaScript numbers\<close>

text \<open>
  The calculators compute with JavaScript numbers. A number is modelled as a real, or
  one of the three special values that steer the control flow of the source:
  \<open>Infinity\<close>, \<open>-Infinity\<close> and \<open>NaN\<close>. The finite values are idealised: arithmetic on
  them is exact (no binary rounding, no overflow to infinity) and zero has no sign, so a
  division by zero gives the infinity of the sign of the numerator.
\<close>

datatype jsnum = Num real | PInf | NInf | NaN

fun js_neg :: "jsnum \<Rightarrow> jsnum" where
  "js_neg (Num x) = Num (- x)"
| "js_neg PInf = NInf"
| "js_neg NInf = PInf"
| "js_neg NaN = NaN"

fun js_add :: "jsnum \<Rightarrow> jsnum \<Rightarrow> jsnum" where
  "js_add NaN b = NaN"
| "js_add a NaN = NaN"
| "js_add (Num x) (Num y) = Num (x + y)"
| "js_add PInf NInf = NaN"
| "js_add NInf PInf = NaN"
| "js_add PInf b = PInf"
| "js_add a PInf = PInf"
| "js_add NInf b = NInf"
| "js_add a NInf = NInf"

definition js_sub :: "jsnum \<Rightarrow> jsnum \<Rightarrow> jsnum" where
  "js_sub a b = js_add a (js_neg b)"

fun js_mul :: "jsnum \<Rightarrow> jsnum \<Rightarrow> jsnum" where
  "js_mul NaN b = NaN"
| "js_mul a NaN = NaN"
| "js_mul (Num x) (Num y) = Num (x * y)"
| "js_mul (Num x) PInf = (if x = 0 then NaN else if 0 < x then PInf else NInf)"
| "js_mul (Num x) NInf = (if x = 0 then NaN else if 0 < x then NInf else PInf)"
| "js_mul PInf (Num y) = (if y = 0 then NaN else if 0 < y then PInf else NInf)"
| "js_mul NInf (Num y) = (if y = 0 then NaN else if 0 < y then NInf else PInf)"
| "js_mul PInf PInf = PInf"
| "js_mul PInf NInf = NInf"
| "js_mul NInf PInf = NInf"
| "js_mul NInf NInf = PInf"

fun js_div :: "jsnum \<Rightarrow> jsnum \<Rightarrow> jsnum" where
  "js_div NaN b = NaN"
| "js_div a NaN = NaN"
| "js_div (Num x) (Num y) =
     (if y = 0 then (if x = 0 then NaN else if 0 < x then PInf else NInf)
      else Num (x / y))"
| "js_div (Num x) PInf = Num 0"
| "js_div (Num x) NInf = Num 0"
| "js_div PInf (Num y) = (if 0 \<le> y then PInf else NInf)"
| "js_div NInf (Num y) = (if 0 \<le> y then NInf else PInf)"
| "js_div PInf b = NaN"
| "js_div NInf b = NaN"

text \<open>The comparison operators: every comparison with \<open>NaN\<close> is false.\<close>

fun js_lt :: "jsnum \<Rightarrow> jsnum \<Rightarrow> bool" where
  "js_lt NaN b = False"
| "js_lt a NaN = False"
| "js_lt (Num x) (Num y) = (x < y)"
| "js_lt PInf b = False"
| "js_lt a PInf = True"
| "js_lt a NInf = False"
| "js_lt NInf b = True"

definition js_le :: "jsnum \<Rightarrow> jsnum \<Rightarrow> bool" where
  "js_le a b = (a \<noteq> NaN \<and> b \<noteq> NaN \<and> \<not> js_lt b a)"

definition js_gt :: "jsnum \<Rightarrow> jsnum \<Rightarrow> bool" where
  "js_gt a b = js_lt b a"

definition js_ge :: "jsnum \<Rightarrow> jsnum \<Rightarrow> bool" where
  "js_ge a b = js_le b a"

text \<open>
  \<open>truthy n\<close> is the boolean a number converts to, in \<open>!n\<close>, \<open>n || d\<close> and \<open>if (n)\<close>:
  false for zero and for \<open>NaN\<close>.
\<close>

definition truthy :: "jsnum \<Rightarrow> bool" where
  "truthy n = (n \<noteq> NaN \<and> n \<noteq> Num 0)"

definition isNaN :: "jsnum \<Rightarrow> bool" where
  "isNaN n = (n = NaN)"

text \<open>\<open>Math.round\<close> rounds to the nearest integer, a half towards plus infinity.\<close>

fun Math_round :: "jsnum \<Rightarrow> jsnum" where
  "Math_round (Num x) = Num (of_int \<lfloor>x + 1 / 2\<rfloor>)"
| "Math_round n = n"

definition Math_min :: "jsnum \<Rightarrow> jsnum \<Rightarrow> jsnum" where
  "Math_min a b = (if a = NaN \<or> b = NaN then NaN else if js_lt b a then b else a)"

definition Math_max :: "jsnum \<Rightarrow> jsnum \<Rightarrow> jsnum" where
  "Math_max a b = (if a = NaN \<or> b = NaN then NaN else if js_lt a b then b else a)"

fun Math_log10 :: "jsnum \<Rightarrow> jsnum" where
  "Math_log10 (Num x) = (if x < 0 then NaN else if x = 0 then NInf else Num (log 10 x))"
| "Math_log10 PInf = PInf"
| "Math_log10 NInf = NaN"
| "Math_log10 NaN = NaN"

definition odd_integer :: "real \<Rightarrow> bool" where
  "odd_integer y = (y = of_int \<lfloor>y\<rfloor> \<and> odd \<lfloor>y\<rfloor>)"

fun Math_pow :: "jsnum \<Rightarrow> jsnum \<Rightarrow> jsnum" where
  "Math_pow b NaN = NaN"
| "Math_pow b (Num y) =
     (if y = 0 then Num 1
      else (case b of
          NaN \<Rightarrow> NaN
        | Num x \<Rightarrow>
            if 0 < x then Num (x powr y)
            else if x = 0 then (if 0 < y then Num 0 else PInf)
            else if y = of_int \<lfloor>y\<rfloor>
              then Num ((if odd \<lfloor>y\<rfloor> then - 1 else 1) * ((- x) powr y))
              else NaN
        | PInf \<Rightarrow> if 0 < y then PInf else Num 0
        | NInf \<Rightarrow> if 0 < y then (if odd_integer y then NInf else PInf) else Num 0))"
| "Math_pow b PInf =
     (case b of
        NaN \<Rightarrow> NaN
      | Num x \<Rightarrow> if 1 < \<bar>x\<bar> then PInf else if \<bar>x\<bar> = 1 then NaN else Num 0
      | PInf \<Rightarrow> PInf
      | NInf \<Rightarrow> PInf)"
| "Math_pow b NInf =
     (case b of
        NaN \<Rightarrow> NaN
      | Num x \<Rightarrow> if 1 < \<bar>x\<bar> then Num 0 else if \<bar>x\<bar> = 1 then NaN else PInf
      | PInf \<Rightarrow> Num 0
      | NInf \<Rightarrow> Num 0)"

section \<open>Form values\<close>

text \<open>
  A piece of form state is the number it was initialised with, or the text of a number
  control (\<open>input type="number"\<close>), which is the empty string or a floating-point
  literal. A non-empty text is represented by what the source's readers make of it:
  \<open>Text x i\<close> is a literal of value \<open>x\<close>, which \<open>parseFloat\<close> and the implicit conversion
  to a number both read as \<open>x\<close>, and from which \<open>parseInt\<close> reads \<open>i\<close> (the integer of
  the digits before a decimal point or exponent, \<open>NaN\<close> when there are none). The three
  readers differ on the empty text: \<open>parseFloat\<close> and \<open>parseInt\<close> give \<open>NaN\<close>, the
  implicit conversion gives zero.
\<close>

datatype field = Number jsnum | Blank | Text real jsnum

fun parseFloat :: "field \<Rightarrow> jsnum" where
  "parseFloat (Number n) = n"
| "parseFloat Blank = NaN"
| "parseFloat (Text x i) = Num x"

fun ToNumber :: "field \<Rightarrow> jsnum" where
  "ToNumber (Number n) = n"
| "ToNumber Blank = Num 0"
| "ToNumber (Text x i) = Num x"

text \<open>
  \<open>parseInt\<close> of a number reads the integer digits of the number's decimal text: the
  number cut off towards zero, except that a number printed in exponent notation
  (below \<open>1e-6\<close> or from \<open>1e21\<close>) yields its leading digit.
\<close>

definition trunc_towards_zero :: "real \<Rightarrow> real" where
  "trunc_towards_zero x = (if 0 \<le> x then of_int \<lfloor>x\<rfloor> else of_int \<lceil>x\<rceil>)"

definition leading_digit :: "real \<Rightarrow> real" where
  "leading_digit x = of_int \<lfloor>x / 10 powr of_int \<lfloor>log 10 x\<rfloor>\<rfloor>"

fun parseInt :: "field \<Rightarrow> jsnum" where
  "parseInt (Number (Num x)) =
     (if x = 0 \<or> (1 / 10 ^ 6 \<le> \<bar>x\<bar> \<and> \<bar>x\<bar> < 10 ^ 21) then Num (trunc_towards_zero x)
      else if 0 < x then Num (leading_digit x) else Num (- leading_digit (- x)))"
| "parseInt (Number n) = NaN"
| "parseInt Blank = NaN"
| "parseInt (Text x i) = i"

fun truthy_field :: "field \<Rightarrow> bool" where
  "truthy_field (Number n) = truthy n"
| "truthy_field Blank = False"
| "truthy_field (Text x i) = True"

text \<open>\<open>v || d\<close> on a form value.\<close>

definition or_else :: "field \<Rightarrow> jsnum \<Rightarrow> field" where
  "or_else v d = (if truthy_field v then v else Number d)"

section \<open>Acetaminophen nomogram calculator\<close>

text \<open>
  The component of \<open>src/pages/Calculators/AcetaminophenLethalDoseCalculator.jsx\<close>. Each
  component is modelled the same way: its constants and helpers as functions, its state
  as a record, and \<open>calculate\<close> as a function from the clock reading it stamps the
  result with and the state to the new state. The toasts it raises are appended to a
  list in the state.
\<close>

definition ACETAMINOPHEN_MW :: jsnum where
  "ACETAMINOPHEN_MW = Num 151.1626"

definition NOMO_T1 :: jsnum where "NOMO_T1 = Num 4"
definition NOMO_C1 :: jsnum where "NOMO_C1 = Num 150"
definition NOMO_T2 :: jsnum where "NOMO_T2 = Num 24"
definition NOMO_C2 :: jsnum where "NOMO_C2 = Num 4.69"

definition umolL_to_ugmL :: "field \<Rightarrow> jsnum" where
  "umolL_to_ugmL umolL =
     js_mul (if truthy (parseFloat umolL) then parseFloat umolL else Num 0)
            (js_mul ACETAMINOPHEN_MW (Num 0.001))"

definition ugmL_to_umolL :: "field \<Rightarrow> jsnum" where
  "ugmL_to_umolL ugmL =
     js_div (if truthy (parseFloat ugmL) then parseFloat ugmL else Num 0)
            (js_mul ACETAMINOPHEN_MW (Num 0.001))"

definition nomogramThresholdAtHours :: "jsnum \<Rightarrow> jsnum" where
  "nomogramThresholdAtHours h =
     (if js_le h NOMO_T1 then NOMO_C1
      else if js_ge h NOMO_T2 then NOMO_C2
      else
        let logC1 = Math_log10 NOMO_C1;
            logC2 = Math_log10 NOMO_C2;
            ratio = js_div (js_sub h NOMO_T1) (js_sub NOMO_T2 NOMO_T1);
            logC = js_add logC1 (js_mul (js_sub logC2 logC1) ratio)
        in Math_pow (Num 10) logC)"

text \<open>
  The text of a \<open>datetime-local\<close> control is represented by what the \<open>Date\<close>
  constructor reads from it: no time for the empty or an unparsable text, otherwise the
  time in milliseconds.
\<close>

datatype datetime_text = NoTime | TimeText real

fun parseDateTimeLocal :: "datetime_text \<Rightarrow> real option" where
  "parseDateTimeLocal NoTime = None"
| "parseDateTimeLocal (TimeText ms) = Some ms"

fun diffHours :: "real option \<Rightarrow> real option \<Rightarrow> jsnum option" where
  "diffHours (Some t0) (Some t1) = Some (js_div (js_sub (Num t1) (Num t0)) (Num (1000 * 60 * 60)))"
| "diffHours t0 t1 = None"

text \<open>\<open>roundNumber\<close> returns a dash instead of a number for \<open>NaN\<close>: \<open>None\<close> here.\<close>

definition roundNumber :: "jsnum \<Rightarrow> jsnum \<Rightarrow> jsnum option" where
  "roundNumber v d =
     (if isNaN v then None
      else let p = Math_pow (Num 10) d in Some (js_div (Math_round (js_mul v p)) p))"

datatype apap_warning = Before_4_hours | After_24_hours

datatype apap_action = Treat | No_threshold_reached

datatype apap_toast = Error_provide_times_or_hours | Error_valid_concentration | Success_evaluated

record apap_result =
  res_timestamp :: string
  res_hoursSince :: "jsnum option"
  res_concentration_ugmL :: "jsnum option"
  res_concentration_umolL :: "jsnum option"
  res_threshold_ugmL :: "jsnum option"
  res_action :: apap_action
  res_warnings :: "apap_warning list"

text \<open>
  The component's state: the form values, the result shown, the session history (most
  recent first) and the toasts raised so far (oldest first).
\<close>

record apap_state =
  ingestionTime :: datetime_text
  sampleTime :: datetime_text
  hoursSince :: field
  concentrationValue :: field
  concentrationUnit :: string
  apap_history :: "apap_result list"
  apap_result :: "apap_result option"
  apap_toasts :: "apap_toast list"

definition computedHoursSince :: "apap_state \<Rightarrow> jsnum option" where
  "computedHoursSince s =
     (if truthy_field (hoursSince s) \<and> \<not> isNaN (parseFloat (hoursSince s))
      then Some (parseFloat (hoursSince s))
      else
        let tIngest = parseDateTimeLocal (ingestionTime s);
            tSample = parseDateTimeLocal (sampleTime s)
        in if tIngest = None \<or> tSample = None then None else diffHours tIngest tSample)"

definition concentration_ugmL :: "apap_state \<Rightarrow> jsnum" where
  "concentration_ugmL s =
     (if concentrationUnit s = ''ug_per_mL''
      then (if truthy (parseFloat (concentrationValue s)) then parseFloat (concentrationValue s)
            else Num 0)
      else umolL_to_ugmL (concentrationValue s))"

definition apap_calculate :: "string \<Rightarrow> apap_state \<Rightarrow> apap_state" where
  "apap_calculate now s =
     (case computedHoursSince s of
        None \<Rightarrow> s\<lparr>apap_toasts := apap_toasts s @ [Error_provide_times_or_hours]\<rparr>
      | Some h \<Rightarrow>
          if isNaN h then s\<lparr>apap_toasts := apap_toasts s @ [Error_provide_times_or_hours]\<rparr>
          else
            let conc = concentration_ugmL s in
            if \<not> truthy conc \<or> isNaN conc
            then s\<lparr>apap_toasts := apap_toasts s @ [Error_valid_concentration]\<rparr>
            else
              let warnings =
                    (if js_lt h (Num 4) then [Before_4_hours] else [])
                    @ (if js_gt h (Num 24) then [After_24_hours] else []);
                  threshold = nomogramThresholdAtHours (Math_max h (Num 4));
                  indication = (if js_ge conc threshold then Treat else No_threshold_reached);
                  conc_umolL = ugmL_to_umolL (Number conc);
                  res = \<lparr>res_timestamp = now,
                         res_hoursSince = roundNumber h (Num 2),
                         res_concentration_ugmL = roundNumber conc (Num 3),
                         res_concentration_umolL = roundNumber conc_umolL (Num 2),
                         res_threshold_ugmL = roundNumber threshold (Num 3),
                         res_action = indication,
                         res_warnings = warnings\<rparr>
              in s\<lparr>apap_result := Some res,
                    apap_history := res # apap_history s,
                    apap_toasts := apap_toasts s @ [Success_evaluated]\<rparr>)"

section \<open>Pediatric paracetamol (Tylenol) calculator\<close>

text \<open>The component of \<open>src/pages/Calculators/PediatricTylenolCalculator.jsx\<close>.\<close>

definition tylenol_formulations :: "(string \<times> jsnum) list" where
  "tylenol_formulations =
     [(''Syrup 125 mg/5 mL'', Num 125),
      (''Syrup 160 mg/5 mL'', Num 160),
      (''Tablet 500 mg'', Num 500)]"

definition toKg :: "field \<Rightarrow> string \<Rightarrow> jsnum option" where
  "toKg val unit =
     (let n = parseFloat val in
      if \<not> truthy n \<or> js_le n (Num 0) then None
      else if unit = ''kg'' then Some n
      else if unit = ''g'' then Some (js_div n (Num 1000))
      else if unit = ''lb'' then Some (js_mul n (Num 0.45359237))
      else None)"

text \<open>
  \<open>roundTo\<close>: the value and the step are numbers, or missing (\<open>null\<close>, \<open>undefined\<close>):
  \<open>None\<close>. The step of the calculator comes from \<open>parseFloat\<close>, so a non-numeric step
  arrives as \<open>NaN\<close>.
\<close>

fun roundTo :: "jsnum option \<Rightarrow> jsnum option \<Rightarrow> jsnum option" where
  "roundTo None step = None"
| "roundTo (Some v) step =
     (if isNaN v then Some v
      else (case step of
              None \<Rightarrow> Some (js_div (Math_round (js_mul v (Num 100))) (Num 100))
            | Some st \<Rightarrow>
                if \<not> truthy st \<or> js_le st (Num 0)
                then Some (js_div (Math_round (js_mul v (Num 100))) (Num 100))
                else Some (js_mul (Math_round (js_div v st)) st)))"

text \<open>
  The warnings carry the numbers their messages print: the rounded dose and the
  configured maximum.
\<close>

datatype tylenol_warning =
    Neonate
  | Single_dose_capped jsnum field
  | Daily_dose_exceeded jsnum field

datatype tylenol_toast = Error_valid_weight | Success_dose_calculated

record tylenol_result =
  tyl_timestamp :: string
  tyl_age :: field
  tyl_ageUnit :: string
  tyl_weightKg :: jsnum
  tyl_mgPerKg :: jsnum
  tyl_rawMg :: jsnum
  tyl_appliedSingleMg :: jsnum
  tyl_mlPerDose :: "jsnum option"
  tyl_formulation :: string
  tyl_minIntervalHours :: field
  tyl_maxDosesPerDay :: field
  tyl_dailyMg :: jsnum
  tyl_warnings :: "tylenol_warning list"

record tylenol_state =
  age :: field
  ageUnit :: string
  weight :: field
  weightUnit :: string
  mgPerKg :: field
  minIntervalHours :: field
  maxDosesPerDay :: field
  maxSingleMg :: field
  maxDailyMg :: field
  formulation :: string
  roundingStep :: jsnum
  history :: "tylenol_result list"
  doseResult :: "tylenol_result option"
  toasts :: "tylenol_toast list"

definition ageMonths :: "tylenol_state \<Rightarrow> jsnum" where
  "ageMonths s =
     (if ageUnit s = ''years'' then js_mul (ToNumber (age s)) (Num 12)
      else if ageUnit s = ''months'' then ToNumber (age s)
      else js_div (ToNumber (age s)) (Num 30))"

definition tylenol_calculate :: "string \<Rightarrow> tylenol_state \<Rightarrow> tylenol_state" where
  "tylenol_calculate now s =
     (case toKg (weight s) (weightUnit s) of
        None \<Rightarrow> s\<lparr>toasts := toasts s @ [Error_valid_weight]\<rparr>
      | Some wKg \<Rightarrow>
          if \<not> truthy wKg then s\<lparr>toasts := toasts s @ [Error_valid_weight]\<rparr>
          else
            let rawMg = js_mul wKg (parseFloat (mgPerKg s));
                appliedSingleMg = Math_min rawMg (parseFloat (maxSingleMg s));
                dailyMg = js_mul appliedSingleMg (parseInt (or_else (maxDosesPerDay s) (Num 4)));
                exceedsDaily = js_gt dailyMg (parseFloat (maxDailyMg s));
                formMgPer5ml =
                  (case map_of tylenol_formulations (formulation s) of
                     None \<Rightarrow> None
                   | Some f \<Rightarrow> if truthy f then Some f else None);
                mlPerDose =
                  (case formMgPer5ml of
                     None \<Rightarrow> None
                   | Some f \<Rightarrow>
                       roundTo (Some (js_mul (js_div appliedSingleMg f) (Num 5)))
                         (Some (roundingStep s)));
                warnings =
                  (if js_lt (ageMonths s) (Num 1) then [Neonate] else [])
                  @ (if js_ge appliedSingleMg (ToNumber (maxSingleMg s))
                     then [Single_dose_capped (Math_round rawMg) (maxSingleMg s)] else [])
                  @ (if exceedsDaily
                     then [Daily_dose_exceeded (Math_round dailyMg) (maxDailyMg s)] else []);
                res = \<lparr>tyl_timestamp = now,
                       tyl_age = age s,
                       tyl_ageUnit = ageUnit s,
                       tyl_weightKg = js_div (Math_round (js_mul wKg (Num 100))) (Num 100),
                       tyl_mgPerKg = parseFloat (mgPerKg s),
                       tyl_rawMg = js_div (Math_round (js_mul rawMg (Num 100))) (Num 100),
                       tyl_appliedSingleMg =
                         js_div (Math_round (js_mul appliedSingleMg (Num 100))) (Num 100),
                       tyl_mlPerDose = mlPerDose,
                       tyl_formulation = formulation s,
                       tyl_minIntervalHours = minIntervalHours s,
                       tyl_maxDosesPerDay = maxDosesPerDay s,
                       tyl_dailyMg = js_div (Math_round (js_mul dailyMg (Num 100))) (Num 100),
                       tyl_warnings = warnings\<rparr>
            in s\<lparr>doseResult := Some res,
                  history := res # history s,
                  toasts := toasts s @ [Success_dose_calculated]\<rparr>)"

section \<open>Prednisolone pediatric calculator\<close>

text \<open>
  The first component of \<open>src/pages/Calculators/PrednisolonePediatricCalculator.jsx\<close>.
\<close>

record preset =
  label :: string
  preset_mgPerKg :: field
  preset_maxSingleMg :: field
  freq :: string

definition defaultPresets :: "(string \<times> preset) list" where
  "defaultPresets =
     [(''asthma'', \<lparr>label = ''Asthma exacerbation (oral)'', preset_mgPerKg = Number (Num 1),
         preset_maxSingleMg = Number (Num 40), freq = ''Once daily or divided''\<rparr>),
      (''croup'', \<lparr>label = ''Croup (single dose)'', preset_mgPerKg = Number (Num 0.15),
         preset_maxSingleMg = Number (Num 10), freq = ''Single dose''\<rparr>),
      (''nephrotic'', \<lparr>label = ''Nephrotic syndrome (taper)'', preset_mgPerKg = Number (Num 2),
         preset_maxSingleMg = Number (Num 60), freq = ''Daily / per protocol''\<rparr>),
      (''autoimmune'', \<lparr>label = ''Autoimmune / inflammatory'', preset_mgPerKg = Number (Num 1),
         preset_maxSingleMg = Number (Num 60), freq = ''Once daily''\<rparr>),
      (''antiemetic'', \<lparr>label = ''Antiemetic adjunct'', preset_mgPerKg = Number (Num 0.15),
         preset_maxSingleMg = Number (Num 8), freq = ''Single dose''\<rparr>),
      (''custom'', \<lparr>label = ''Custom'', preset_mgPerKg = Number (Num 1),
         preset_maxSingleMg = Number (Num 50), freq = ''Once daily''\<rparr>)]"

datatype form = Syrup jsnum | Tablet jsnum

definition prednisolone_formulations :: "(string \<times> form) list" where
  "prednisolone_formulations =
     [(''Syrup 5 mg/5 mL'', Syrup (Num 5)),
      (''Syrup 10 mg/5 mL'', Syrup (Num 10)),
      (''Tablet 5 mg'', Tablet (Num 5)),
      (''Tablet 20 mg'', Tablet (Num 20))]"

text \<open>The prednisolone component's own \<open>toKg\<close> and \<open>roundTo\<close>.\<close>

definition toKg_prednisolone :: "field \<Rightarrow> string \<Rightarrow> jsnum option" where
  "toKg_prednisolone val unit =
     (let n = parseFloat val in
      if \<not> truthy n \<or> isNaN n then None
      else if unit = ''kg'' then Some n
      else if unit = ''g'' then Some (js_div n (Num 1000))
      else if unit = ''lb'' then Some (js_mul n (Num 0.45359237))
      else None)"

fun roundTo_prednisolone :: "jsnum option \<Rightarrow> jsnum option \<Rightarrow> jsnum option" where
  "roundTo_prednisolone None step = None"
| "roundTo_prednisolone (Some v) step =
     (if isNaN v then None
      else (case step of
              None \<Rightarrow> Some (js_div (Math_round (js_mul v (Num 100))) (Num 100))
            | Some st \<Rightarrow>
                if \<not> truthy st \<or> js_le st (Num 0)
                then Some (js_div (Math_round (js_mul v (Num 100))) (Num 100))
                else Some (js_mul (Math_round (js_div v st)) st)))"

datatype prednisolone_warning = Exceeds_preset_maximum jsnum jsnum | Very_low_weight

datatype prednisolone_toast = Error_enter_valid_weight | Error_invalid_mg_per_kg | Success_calculated

datatype js_exception = TypeError

record prednisolone_result =
  pr_timestamp :: string
  pr_age :: field
  pr_ageUnit :: string
  pr_weightKg :: jsnum
  pr_preset :: string
  pr_mgPerKg :: jsnum
  pr_rawSingleMg :: jsnum
  pr_appliedSingleMg :: jsnum
  pr_frequency :: string
  pr_mlPerDose :: "jsnum option"
  pr_tabletsPerDose :: "jsnum option"
  pr_formulation :: string
  pr_warnings :: "prednisolone_warning list"

record prednisolone_state =
  p_age :: field
  p_ageUnit :: string
  p_weight :: field
  p_weightUnit :: string
  presetKey :: string
  presets :: "(string \<times> preset) list"
  useCustom :: bool
  customMgPerKg :: field
  customMaxSingle :: field
  formulations :: "(string \<times> form) list"
  formulationKey :: string
  roundingMlStep :: jsnum
  p_result :: "prednisolone_result option"
  p_history :: "prednisolone_result list"
  p_toasts :: "prednisolone_toast list"

text \<open>
  \<open>selected_preset\<close> is \<open>presets[presetKey] || presets.custom\<close>; reading a property of
  a preset that is not there throws, as does reading one of a missing formulation.
\<close>

definition selected_preset :: "prednisolone_state \<Rightarrow> preset option" where
  "selected_preset s =
     (case map_of (presets s) (presetKey s) of
        Some p \<Rightarrow> Some p
      | None \<Rightarrow> map_of (presets s) ''custom'')"

definition prednisolone_calculate ::
  "string \<Rightarrow> prednisolone_state \<Rightarrow> js_exception + prednisolone_state" where
  "prednisolone_calculate now s =
     (case toKg_prednisolone (p_weight s) (p_weightUnit s) of
        None \<Rightarrow> Inr (s\<lparr>p_toasts := p_toasts s @ [Error_enter_valid_weight]\<rparr>)
      | Some wKg \<Rightarrow>
          if \<not> truthy wKg then Inr (s\<lparr>p_toasts := p_toasts s @ [Error_enter_valid_weight]\<rparr>)
          else if \<not> useCustom s \<and> selected_preset s = None then Inl TypeError
          else
            let mgPerKg =
                  (if useCustom s then parseFloat (customMgPerKg s)
                   else (case selected_preset s of
                           Some preset \<Rightarrow> parseFloat (preset_mgPerKg preset) | None \<Rightarrow> NaN));
                maxSingle =
                  (if useCustom s then parseFloat (customMaxSingle s)
                   else (case selected_preset s of
                           Some preset \<Rightarrow> parseFloat (preset_maxSingleMg preset) | None \<Rightarrow> NaN))
            in
            if \<not> truthy mgPerKg \<or> js_le mgPerKg (Num 0)
            then Inr (s\<lparr>p_toasts := p_toasts s @ [Error_invalid_mg_per_kg]\<rparr>)
            else
              let rawSingleMg = js_mul wKg mgPerKg;
                  appliedSingleMg = (if js_gt maxSingle (Num 0)
                                     then Math_min rawSingleMg maxSingle else rawSingleMg)
              in
              (case selected_preset s of
                 None \<Rightarrow> Inl TypeError
               | Some preset \<Rightarrow>
                   let frequencyLabel = (if freq preset = [] then ''Once daily'' else freq preset)
                   in
                   (case map_of (formulations s) (formulationKey s) of
                      None \<Rightarrow> Inl TypeError
                    | Some form \<Rightarrow>
                        let mlPerDose =
                              (case form of
                                 Syrup mgPer5ml \<Rightarrow>
                                   roundTo_prednisolone
                                     (Some (js_mul (js_div appliedSingleMg mgPer5ml) (Num 5)))
                                     (Some (roundingMlStep s))
                               | Tablet mgPerTablet \<Rightarrow> None);
                            tabletsPerDose =
                              (case form of
                                 Syrup mgPer5ml \<Rightarrow> None
                               | Tablet mgPerTablet \<Rightarrow>
                                   Some (Math_round (js_div appliedSingleMg mgPerTablet)));
                            noteWarnings =
                              (if js_gt rawSingleMg maxSingle
                               then [Exceeds_preset_maximum (Math_round rawSingleMg) maxSingle]
                               else [])
                              @ (if js_lt wKg (Num 1) then [Very_low_weight] else []);
                            res = \<lparr>pr_timestamp = now,
                                   pr_age = p_age s,
                                   pr_ageUnit = p_ageUnit s,
                                   pr_weightKg = js_div (Math_round (js_mul wKg (Num 100))) (Num 100),
                                   pr_preset = label preset,
                                   pr_mgPerKg = mgPerKg,
                                   pr_rawSingleMg =
                                     js_div (Math_round (js_mul rawSingleMg (Num 100))) (Num 100),
                                   pr_appliedSingleMg =
                                     js_div (Math_round (js_mul appliedSingleMg (Num 100))) (Num 100),
                                   pr_frequency = frequencyLabel,
                                   pr_mlPerDose = mlPerDose,
                                   pr_tabletsPerDose = tabletsPerDose,
                                   pr_formulation = formulationKey s,
                                   pr_warnings = noteWarnings\<rparr>
                        in Inr (s\<lparr>p_result := Some res,
                                   p_history := res # p_history s,
                                   p_toasts := p_toasts s @ [Success_calculated]\<rparr>))))"

section \<open>Opioid conversion calculator\<close>

text \<open>
  The opioid conversion component, the third of
  \<open>src/pages/Calculators/PrednisolonePediatricCalculator.jsx\<close>.
\<close>

record drug_meta =
  coeff :: jsnum
  unit :: string

definition defaultCoefficients :: "(string \<times> drug_meta) list" where
  "defaultCoefficients =
     [(''Oral morphine (mg)'', \<lparr>coeff = Num 1, unit = ''mg''\<rparr>),
      (''Oral oxycodone (mg)'', \<lparr>coeff = Num 1.5, unit = ''mg''\<rparr>),
      (''Oral hydromorphone (mg)'', \<lparr>coeff = Num 4, unit = ''mg''\<rparr>),
      (''Oral codeine (mg)'', \<lparr>coeff = Num 0.15, unit = ''mg''\<rparr>),
      (''Oral tramadol (mg)'', \<lparr>coeff = Num 0.1, unit = ''mg''\<rparr>),
      (''Transdermal fentanyl (mcg/hr)'', \<lparr>coeff = Num 2.4, unit = ''mcg/hr''\<rparr>),
      (''Oral methadone (mg)'', \<lparr>coeff = Num 4, unit = ''mg''\<rparr>),
      (''Hydrocodone (mg)'', \<lparr>coeff = Num 1, unit = ''mg''\<rparr>),
      (''Other (custom)'', \<lparr>coeff = Num 0, unit = ''mg''\<rparr>)]"

record entry =
  entry_id :: string
  drug :: string
  dose :: field
  entry_unit :: string
  freqPerDay :: field

record target_dose =
  target_value :: jsnum
  target_unit :: string

record rounding_steps =
  mg :: jsnum
  mcg :: jsnum

text \<open>
  \<open>parseNumber\<close> removes the commas of its argument's text before \<open>parseFloat\<close> reads
  it; the text of a number control has none. A text that does not parse counts as zero.
\<close>

definition parseNumber :: "field \<Rightarrow> jsnum" where
  "parseNumber v = (let n = parseFloat v in if isNaN n then Num 0 else n)"

text \<open>The coefficient table is a parameter of the helpers: it is part of the state.\<close>

definition lookup_meta :: "(string \<times> drug_meta) list \<Rightarrow> string \<Rightarrow> drug_meta" where
  "lookup_meta coefficients d =
     (case map_of coefficients d of Some m \<Rightarrow> m | None \<Rightarrow> \<lparr>coeff = Num 0, unit = ''mg''\<rparr>)"

definition entryToOME :: "(string \<times> drug_meta) list \<Rightarrow> entry \<Rightarrow> jsnum" where
  "entryToOME coefficients e =
     (let drugMeta = lookup_meta coefficients (drug e);
          dose = parseNumber (dose e);
          freq = (if truthy (parseNumber (freqPerDay e)) then parseNumber (freqPerDay e) else Num 1)
      in if unit drugMeta = ''mcg/hr''
         then js_mul (js_mul dose (Num 24)) (coeff drugMeta)
         else js_mul (js_mul dose freq) (coeff drugMeta))"

definition calculateTotalOME :: "(string \<times> drug_meta) list \<Rightarrow> entry list \<Rightarrow> jsnum" where
  "calculateTotalOME coefficients entries =
     foldl (\<lambda>s e. js_add s (entryToOME coefficients e)) (Num 0) entries"

definition convertOMEtoTarget :: "(string \<times> drug_meta) list \<Rightarrow> jsnum \<Rightarrow> string \<Rightarrow> target_dose" where
  "convertOMEtoTarget coefficients totalOME target =
     (let meta = lookup_meta coefficients target
      in if unit meta = ''mcg/hr''
         then \<lparr>target_value = js_div totalOME (js_mul (Num 24) (coeff meta)),
               target_unit = ''mcg/hr''\<rparr>
         else \<lparr>target_value = js_div totalOME (coeff meta), target_unit = ''mg/day''\<rparr>)"

definition practicalRound :: "rounding_steps \<Rightarrow> jsnum \<Rightarrow> string \<Rightarrow> jsnum" where
  "practicalRound rounding v u =
     (if u = ''mcg/hr''
      then let step = (if truthy (mcg rounding) then mcg rounding else Num 25)
           in js_mul (Math_round (js_div v step)) step
      else let step = (if truthy (mg rounding) then mg rounding else Num 5)
           in js_mul (Math_round (js_div v step)) step)"

datatype opioid_toast = Error_total_OME_zero | Success_conversion_calculated

record opioid_result =
  op_timestamp :: string
  op_entries :: "entry list"
  op_totalOME :: jsnum
  op_rawTarget :: target_dose
  op_adjustedValue :: jsnum
  op_practical :: jsnum
  op_practicalUnit :: string
  op_incompleteCrossTolerancePercent :: jsnum

record opioid_state =
  entries :: "entry list"
  coefficients :: "(string \<times> drug_meta) list"
  targetOpioid :: string
  incompleteCrossTolerancePercent :: field
  rounding :: rounding_steps
  op_history :: "opioid_result list"
  op_result :: "opioid_result option"
  op_toasts :: "opioid_toast list"

definition opioid_calculate :: "string \<Rightarrow> opioid_state \<Rightarrow> opioid_state" where
  "opioid_calculate now s =
     (let totalOME = calculateTotalOME (coefficients s) (entries s) in
      if \<not> truthy totalOME \<or> js_le totalOME (Num 0)
      then s\<lparr>op_toasts := op_toasts s @ [Error_total_OME_zero]\<rparr>
      else
        let rawTarget = convertOMEtoTarget (coefficients s) totalOME (targetOpioid s);
            reductionFactor =
              js_div (js_sub (Num 100)
                        (parseNumber (or_else (incompleteCrossTolerancePercent s) (Num 0))))
                     (Num 100);
            adjustedValue = js_mul (target_value rawTarget) reductionFactor;
            practical = practicalRound (rounding s) adjustedValue (target_unit rawTarget);
            res = \<lparr>op_timestamp = now,
                   op_entries = entries s,
                   op_totalOME = js_div (Math_round (js_mul totalOME (Num 100))) (Num 100),
                   op_rawTarget = rawTarget,
                   op_adjustedValue = js_div (Math_round (js_mul adjustedValue (Num 100))) (Num 100),
                   op_practical = practical,
                   op_practicalUnit = target_unit rawTarget,
                   op_incompleteCrossTolerancePercent =
                     parseNumber (incompleteCrossTolerancePercent s)\<rparr>
        in s\<lparr>op_result := Some res,
              op_history := res # op_history s,
              op_toasts := op_toasts s @ [Success_conversion_calculated]\<rparr>)"

section \<open>The conversion formulas in the words of the specification\<close>

text \<open>
  The specification states the opioid conversion in plain arithmetic: an entry
  contributes dose times frequency times coefficient, a transdermal one dose times 24
  times coefficient; the total is divided by the coefficient of the target, by 24 times
  the coefficient for a transdermal target. These are the formulas, over the reals, that
  the functions of the source are compared with.
\<close>

definition spec_entry_OME :: "string \<Rightarrow> real \<Rightarrow> real \<Rightarrow> real \<Rightarrow> real" where
  "spec_entry_OME u d f c = (if u = ''mcg/hr'' then d * 24 * c else d * f * c)"

definition spec_target_dose :: "string \<Rightarrow> real \<Rightarrow> real \<Rightarrow> real" where
  "spec_target_dose u ome c = (if u = ''mcg/hr'' then ome / (24 * c) else ome / c)"

text \<open>
  The readings of an entry that the comparison is about: an entry is finite when its
  dose, its frequency and the coefficient of its drug are finite numbers, and its value
  is the formula of the specification at these readings, with the frequency 1 where the
  entry's frequency reads as zero.
\<close>

fun real_of :: "jsnum \<Rightarrow> real" where
  "real_of (Num x) = x"
| "real_of n = 0"

fun finite_num :: "jsnum \<Rightarrow> bool" where
  "finite_num (Num x) = True"
| "finite_num n = False"

definition finite_entry :: "(string \<times> drug_meta) list \<Rightarrow> entry \<Rightarrow> bool" where
  "finite_entry cs e =
     (finite_num (parseNumber (dose e)) \<and> finite_num (parseNumber (freqPerDay e))
      \<and> finite_num (coeff (lookup_meta cs (drug e))))"

definition entry_OME_value :: "(string \<times> drug_meta) list \<Rightarrow> entry \<Rightarrow> real" where
  "entry_OME_value cs e =
     spec_entry_OME (unit (lookup_meta cs (drug e)))
       (real_of (parseNumber (dose e)))
       (if real_of (parseNumber (freqPerDay e)) = 0 then 1
        else real_of (parseNumber (freqPerDay e)))
       (real_of (coeff (lookup_meta cs (drug e))))"

section \<open>Initial states\<close>

text \<open>The values the components pass to \<open>useState\<close>.\<close>

definition apap_initial :: apap_state where
  "apap_initial =
     \<lparr>ingestionTime = NoTime, sampleTime = NoTime, hoursSince = Blank,
      concentrationValue = Number (Num 150), concentrationUnit = ''ug_per_mL'',
      apap_history = [], apap_result = None, apap_toasts = []\<rparr>"

definition tylenol_initial :: tylenol_state where
  "tylenol_initial =
     \<lparr>age = Number (Num 2), ageUnit = ''years'',
      weight = Number (Num 12), weightUnit = ''kg'',
      mgPerKg = Number (Num 15), minIntervalHours = Number (Num 6),
      maxDosesPerDay = Number (Num 4),
      maxSingleMg = Number (Num 1000), maxDailyMg = Number (Num 4000),
      formulation = ''Syrup 125 mg/5 mL'', roundingStep = Num 0.5,
      history = [], doseResult = None, toasts = []\<rparr>"

definition prednisolone_initial :: prednisolone_state where
  "prednisolone_initial =
     \<lparr>p_age = Number (Num 4), p_ageUnit = ''years'',
      p_weight = Number (Num 15), p_weightUnit = ''kg'',
      presetKey = ''asthma'', presets = defaultPresets, useCustom = False,
      customMgPerKg = Number (Num 1), customMaxSingle = Number (Num 50),
      formulations = prednisolone_formulations, formulationKey = ''Syrup 5 mg/5 mL'',
      roundingMlStep = Num 0.25,
      p_result = None, p_history = [], p_toasts = []\<rparr>"

text \<open>The first entry's identifier is the clock reading at the first render.\<close>

definition opioid_initial :: "string \<Rightarrow> opioid_state" where
  "opioid_initial first_id =
     \<lparr>entries = [\<lparr>entry_id = first_id, drug = ''Oral morphine (mg)'', dose = Text 30 (Num 30),
                   entry_unit = ''mg'', freqPerDay = Number (Num 4)\<rparr>],
      coefficients = defaultCoefficients,
      targetOpioid = ''Oral morphine (mg)'',
      incompleteCrossTolerancePercent = Number (Num 25),
      rounding = \<lparr>mg = Num 5, mcg = Num 25\<rparr>,
      op_history = [], op_result = None, op_toasts = []\<rparr>"

section \<open>Example inputs\<close>

text \<open>
  A regimen of oral morphine, 30 mg four times a day (the entry the component starts
  with), and a fentanyl patch of 25 mcg/hr, to be converted to a fentanyl patch.
\<close>

definition morphine_entry :: entry where
  "morphine_entry =
     \<lparr>entry_id = ''e1'', drug = ''Oral morphine (mg)'', dose = Text 30 (Num 30),
      entry_unit = ''mg'', freqPerDay = Number (Num 4)\<rparr>"

definition fentanyl_entry :: entry where
  "fentanyl_entry =
     \<lparr>entry_id = ''e2'', drug = ''Transdermal fentanyl (mcg/hr)'', dose = Text 25 (Num 25),
      entry_unit = ''mcg/hr'', freqPerDay = Number (Num 1)\<rparr>"

definition example_regimen :: opioid_state where
  "example_regimen =
     (opioid_initial ''e1'')
       \<lparr>entries := [morphine_entry, fentanyl_entry],
        targetOpioid := ''Transdermal fentanyl (mcg/hr)''\<rparr>"

text \<open>An entry of 10 mg oral morphine with the frequency 0, and the entry \<open>addEntry\<close> appends.\<close>

definition zero_frequency_entry :: entry where
  "zero_frequency_entry =
     \<lparr>entry_id = ''e3'', drug = ''Oral morphine (mg)'', dose = Text 10 (Num 10),
      entry_unit = ''mg'', freqPerDay = Text 0 (Num 0)\<rparr>"

definition added_entry :: entry where
  "added_entry =
     \<lparr>entry_id = ''e4'', drug = ''Oral morphine (mg)'', dose = Text 0 (Num 0),
      entry_unit = ''mg'', freqPerDay = Number (Num 1)\<rparr>"

text \<open>An entry with a negative dose: 30 mg of oral morphine, with a minus sign, four times a day.\<close>

definition negative_dose_entry :: entry where
  "negative_dose_entry =
     \<lparr>entry_id = ''e6'', drug = ''Oral morphine (mg)'', dose = Text (- 30) (Num (- 30)),
      entry_unit = ''mg'', freqPerDay = Number (Num 4)\<rparr>"

section \<open>The nomogram threshold\<close>

lemma nomogram_finite:
  "nomogramThresholdAtHours (Num h) =
     (if h \<le> 4 then Num 150
      else if 24 \<le> h then Num 4.69
      else Num (10 powr (log 10 150 + (log 10 4.69 - log 10 150) * ((h - 4) / (24 - 4)))))"
proof -
  have nz: "log 10 150 + (log 10 4.69 - log 10 150) * ((h - 4) / 20) = 0
      \<Longrightarrow> (10::real) powr (log 10 150 + (log 10 4.69 - log 10 150) * ((h - 4) / 20)) = 1"
    by simp
  show ?thesis
    using nz
    by (simp add: nomogramThresholdAtHours_def NOMO_T1_def NOMO_T2_def NOMO_C1_def NOMO_C2_def
        js_le_def js_ge_def js_sub_def Let_def)
qed

text \<open>
  C1. For every elapsed-hours input \<open>h\<close>, the threshold function returns 150 when
  \<open>h \<le> 4\<close>, returns 4.69 when \<open>h \<ge> 24\<close>, and otherwise returns
  \<open>10^(log10(150) + (log10(4.69) - log10(150)) * (h - 4)/(24 - 4))\<close>. The infinities fall
  under the two guards; on \<open>NaN\<close> both guards are false and the interpolation formula
  evaluates to \<open>NaN\<close>.
\<close>

theorem nomogram_threshold_cases:
  "nomogramThresholdAtHours h =
     (case h of
        Num x \<Rightarrow>
          if x \<le> 4 then Num 150
          else if 24 \<le> x then Num 4.69
          else Num (10 powr (log 10 150 + (log 10 4.69 - log 10 150) * (x - 4) / (24 - 4)))
      | PInf \<Rightarrow> Num 4.69
      | NInf \<Rightarrow> Num 150
      | NaN \<Rightarrow> NaN)"
proof (cases h)
  case (Num x)
  then show ?thesis by (simp add: nomogram_finite)
next
  case PInf
  then show ?thesis
    by (simp add: nomogramThresholdAtHours_def NOMO_T1_def NOMO_T2_def NOMO_C2_def
        js_le_def js_ge_def)
next
  case NInf
  then show ?thesis
    by (simp add: nomogramThresholdAtHours_def NOMO_T1_def NOMO_C1_def js_le_def)
next
  case NaN
  then show ?thesis
    by (simp add: nomogramThresholdAtHours_def NOMO_T1_def NOMO_T2_def NOMO_C1_def NOMO_C2_def
        js_le_def js_ge_def js_sub_def Let_def)
qed

lemma geometric_mean_sqrt:
  "(10::real) powr ((log 10 150 + log 10 4.69) / 2) = sqrt (150 * 4.69)"
proof -
  have "(10::real) powr ((log 10 150 + log 10 4.69) / 2)
      = (10 powr (log 10 150 + log 10 4.69)) powr (1 / 2)"
    by (simp add: powr_powr)
  also have "(10::real) powr (log 10 150 + log 10 4.69) = 150 * 4.69"
    by (simp add: powr_add)
  finally show ?thesis by (simp add: powr_half_sqrt)
qed

lemma geometric_mean_lower: "26.52 < (10::real) powr ((log 10 150 + log 10 4.69) / 2)"
  unfolding geometric_mean_sqrt by (rule real_less_rsqrt) (simp add: power2_eq_square)

lemma geometric_mean_upper: "(10::real) powr ((log 10 150 + log 10 4.69) / 2) < 26.53"
  unfolding geometric_mean_sqrt by (rule real_less_lsqrt) (simp_all add: power2_eq_square)

lemma nomogram_at_14:
  "nomogramThresholdAtHours (Num 14) = Num (10 powr ((log 10 150 + log 10 4.69) / 2))"
proof -
  have "log 10 150 + (log 10 4.69 - log 10 150) * ((14 - 4) / (24 - 4))
      = (log 10 150 + log 10 4.69) / (2::real)"
    by (simp add: field_simps)
  then show ?thesis
    by (simp only: nomogram_finite) simp
qed

text \<open>
  C2. The point evaluations of the threshold: 150 at 4 hours, 4.69 at 24 hours, the
  4-hour value at 2 hours, the 24-hour value at 30 hours, and at 14 hours the
  geometric-mean value \<open>10^((log10(150) + log10(4.69))/2)\<close>, which lies between 26.52
  and 26.53.
\<close>

theorem nomogram_points:
  "nomogramThresholdAtHours (Num 4) = Num 150
   \<and> nomogramThresholdAtHours (Num 24) = Num 4.69
   \<and> nomogramThresholdAtHours (Num 2) = nomogramThresholdAtHours (Num 4)
   \<and> nomogramThresholdAtHours (Num 30) = nomogramThresholdAtHours (Num 24)
   \<and> nomogramThresholdAtHours (Num 14) = Num (10 powr ((log 10 150 + log 10 4.69) / 2))
   \<and> 26.52 < 10 powr ((log 10 150 + log 10 4.69) / 2)
   \<and> 10 powr ((log 10 150 + log 10 4.69) / 2) < (26.53::real)"
proof -
  have p4: "nomogramThresholdAtHours (Num 4) = Num 150" by (simp add: nomogram_finite)
  have p24: "nomogramThresholdAtHours (Num 24) = Num 4.69" by (simp add: nomogram_finite)
  have p2: "nomogramThresholdAtHours (Num 2) = Num 150" by (simp add: nomogram_finite)
  have p30: "nomogramThresholdAtHours (Num 30) = Num 4.69" by (simp add: nomogram_finite)
  from p4 p24 p2 p30 nomogram_at_14 geometric_mean_lower geometric_mean_upper
  show ?thesis by (simp only: simp_thms)
qed

section \<open>The single-dose cap of the paracetamol calculation\<close>

lemma toKg_positive: "toKg v u = Some (Num w) \<Longrightarrow> 0 < w"
  by (cases "parseFloat v")
     (auto simp: toKg_def Let_def truthy_def js_le_def split: if_splits)

lemma parseFloat_ToNumber: "parseFloat f = Num x \<Longrightarrow> ToNumber f = Num x"
  by (cases f) simp_all

lemma calculate_capped:
  assumes w: "toKg (weight s) (weightUnit s) = Some (Num w)"
    and m: "parseFloat (mgPerKg s) = Num m"
    and c: "parseFloat (maxSingleMg s) = Num cap"
    and over: "cap < w * m"
  shows "\<exists>r. doseResult (tylenol_calculate now s) = Some r
           \<and> tyl_appliedSingleMg r = Num (of_int \<lfloor>cap * 100 + 1 / 2\<rfloor> / 100)
           \<and> Single_dose_capped (Num (of_int \<lfloor>w * m + 1 / 2\<rfloor>)) (maxSingleMg s)
               \<in> set (tyl_warnings r)"
proof -
  from w have "0 < w" by (rule toKg_positive)
  moreover from c have "ToNumber (maxSingleMg s) = Num cap" by (rule parseFloat_ToNumber)
  ultimately show ?thesis
    using w m c over
    by (simp add: tylenol_calculate_def Let_def truthy_def Math_min_def js_ge_def js_le_def)
qed

lemma calculate_uncapped:
  assumes w: "toKg (weight s) (weightUnit s) = Some (Num w)"
    and m: "parseFloat (mgPerKg s) = Num m"
    and c: "parseFloat (maxSingleMg s) = Num cap"
    and under: "w * m < cap"
  shows "\<exists>r. doseResult (tylenol_calculate now s) = Some r
           \<and> tyl_rawMg r = Num (of_int \<lfloor>w * m * 100 + 1 / 2\<rfloor> / 100)
           \<and> tyl_appliedSingleMg r = Num (of_int \<lfloor>w * m * 100 + 1 / 2\<rfloor> / 100)
           \<and> tyl_warnings r =
                (if js_lt (ageMonths s) (Num 1) then [Neonate] else [])
                @ (let dailyMg = js_mul (Num (w * m)) (parseInt (or_else (maxDosesPerDay s) (Num 4)))
                   in if js_gt dailyMg (parseFloat (maxDailyMg s))
                      then [Daily_dose_exceeded (Math_round dailyMg) (maxDailyMg s)] else [])"
proof -
  from w have "0 < w" by (rule toKg_positive)
  moreover from c have "ToNumber (maxSingleMg s) = Num cap" by (rule parseFloat_ToNumber)
  ultimately show ?thesis
    using w m c under
    by (simp add: tylenol_calculate_def Let_def truthy_def Math_min_def js_ge_def js_le_def)
qed

text \<open>
  C3, as the code has it. For a valid weight \<open>w\<close> (in kg), a dose of \<open>m\<close> mg/kg and a
  configured cap: whenever the raw dose \<open>w * m\<close> exceeds the cap, the reported dose is
  the cap rounded to two decimals (1000 mg for the cap 1000) and the warnings list is
  not empty: it holds the cap warning. Whenever the raw dose is below the cap, the
  reported dose is the raw dose rounded to two decimals (180 mg for 12 kg at 15 mg/kg)
  and the warnings list holds no cap warning: it consists of the neonate warning if the
  age is below one month, and the daily-dose warning if the dose times the doses per
  day exceeds the configured daily maximum, and of nothing else. So it is empty exactly
  when the age is not below one month and the dose times the doses per day does not
  exceed the daily maximum: it is empty for 12 kg with the initial settings, and it
  holds the daily-dose warning for 80 kg with a cap of 5000 mg (1200 mg four times a
  day against a daily maximum of 4000 mg).
\<close>

theorem tylenol_single_dose_cap:
  assumes "toKg (weight s) (weightUnit s) = Some (Num w)"
    and "parseFloat (mgPerKg s) = Num m"
    and "parseFloat (maxSingleMg s) = Num cap"
  shows "\<exists>r. doseResult (tylenol_calculate now s) = Some r
    \<and> (cap < w * m \<longrightarrow>
          tyl_appliedSingleMg r = Num (of_int \<lfloor>cap * 100 + 1 / 2\<rfloor> / 100)
          \<and> tyl_warnings r \<noteq> []
          \<and> Single_dose_capped (Num (of_int \<lfloor>w * m + 1 / 2\<rfloor>)) (maxSingleMg s)
              \<in> set (tyl_warnings r))
    \<and> (w * m < cap \<longrightarrow>
          tyl_rawMg r = Num (of_int \<lfloor>w * m * 100 + 1 / 2\<rfloor> / 100)
          \<and> tyl_appliedSingleMg r = Num (of_int \<lfloor>w * m * 100 + 1 / 2\<rfloor> / 100)
          \<and> tyl_warnings r =
               (if js_lt (ageMonths s) (Num 1) then [Neonate] else [])
               @ (let dailyMg = js_mul (Num (w * m)) (parseInt (or_else (maxDosesPerDay s) (Num 4)))
                  in if js_gt dailyMg (parseFloat (maxDailyMg s))
                     then [Daily_dose_exceeded (Math_round dailyMg) (maxDailyMg s)] else [])
          \<and> (\<forall>x y. Single_dose_capped x y \<notin> set (tyl_warnings r))
          \<and> (tyl_warnings r = [] \<longleftrightarrow>
                \<not> js_lt (ageMonths s) (Num 1)
                \<and> \<not> js_gt (js_mul (Num (w * m)) (parseInt (or_else (maxDosesPerDay s) (Num 4))))
                          (parseFloat (maxDailyMg s))))"
proof -
  consider "cap < w * m" | "w * m < cap" | "w * m = cap" by linarith
  then show ?thesis
  proof cases
    case 1
    from calculate_capped [OF assms 1, of now] obtain r where
      "doseResult (tylenol_calculate now s) = Some r"
      "tyl_appliedSingleMg r = Num (of_int \<lfloor>cap * 100 + 1 / 2\<rfloor> / 100)"
      "Single_dose_capped (Num (of_int \<lfloor>w * m + 1 / 2\<rfloor>)) (maxSingleMg s) \<in> set (tyl_warnings r)"
      by blast
    with 1 show ?thesis by auto
  next
    case 2
    from calculate_uncapped [OF assms 2, of now] obtain r where r:
      "doseResult (tylenol_calculate now s) = Some r"
      "tyl_rawMg r = Num (of_int \<lfloor>w * m * 100 + 1 / 2\<rfloor> / 100)"
      "tyl_appliedSingleMg r = Num (of_int \<lfloor>w * m * 100 + 1 / 2\<rfloor> / 100)"
      "tyl_warnings r =
         (if js_lt (ageMonths s) (Num 1) then [Neonate] else [])
         @ (let dailyMg = js_mul (Num (w * m)) (parseInt (or_else (maxDosesPerDay s) (Num 4)))
            in if js_gt dailyMg (parseFloat (maxDailyMg s))
               then [Daily_dose_exceeded (Math_round dailyMg) (maxDailyMg s)] else [])"
      by blast
    from 2 r show ?thesis by (auto simp: Let_def)
  next
    case 3
    from assms(1) have "0 < w" by (rule toKg_positive)
    with assms have "\<exists>r. doseResult (tylenol_calculate now s) = Some r"
      by (simp add: tylenol_calculate_def Let_def truthy_def)
    with 3 show ?thesis by auto
  qed
qed

lemma tylenol_80kg_inputs:
  "toKg (weight (tylenol_initial\<lparr>weight := Text 80 (Num 80)\<rparr>))
        (weightUnit (tylenol_initial\<lparr>weight := Text 80 (Num 80)\<rparr>)) = Some (Num 80)"
  "parseFloat (mgPerKg (tylenol_initial\<lparr>weight := Text 80 (Num 80)\<rparr>)) = Num 15"
  "parseFloat (maxSingleMg (tylenol_initial\<lparr>weight := Text 80 (Num 80)\<rparr>)) = Num 1000"
  by (simp_all add: tylenol_initial_def toKg_def truthy_def js_le_def)

lemma tylenol_12kg_inputs:
  "toKg (weight tylenol_initial) (weightUnit tylenol_initial) = Some (Num 12)"
  "parseFloat (mgPerKg tylenol_initial) = Num 15"
  "parseFloat (maxSingleMg tylenol_initial) = Num 1000"
  by (simp_all add: tylenol_initial_def toKg_def truthy_def js_le_def)

lemma tylenol_initial_settings:
  "ageMonths tylenol_initial = Num 24"
  "parseInt (or_else (maxDosesPerDay tylenol_initial) (Num 4)) = Num 4"
  "parseFloat (maxDailyMg tylenol_initial) = Num 4000"
  by (simp_all add: tylenol_initial_def ageMonths_def or_else_def truthy_def trunc_towards_zero_def)

lemma tylenol_cap5000_inputs:
  "toKg (weight (tylenol_initial\<lparr>weight := Text 80 (Num 80), maxSingleMg := Text 5000 (Num 5000)\<rparr>))
        (weightUnit (tylenol_initial\<lparr>weight := Text 80 (Num 80), maxSingleMg := Text 5000 (Num 5000)\<rparr>))
     = Some (Num 80)"
  "parseFloat (mgPerKg (tylenol_initial\<lparr>weight := Text 80 (Num 80), maxSingleMg := Text 5000 (Num 5000)\<rparr>))
     = Num 15"
  "parseFloat (maxSingleMg (tylenol_initial\<lparr>weight := Text 80 (Num 80), maxSingleMg := Text 5000 (Num 5000)\<rparr>))
     = Num 5000"
  by (simp_all add: tylenol_initial_def toKg_def truthy_def js_le_def)

lemma tylenol_cap5000_settings:
  "ageMonths (tylenol_initial\<lparr>weight := Text 80 (Num 80), maxSingleMg := Text 5000 (Num 5000)\<rparr>) = Num 24"
  "parseInt (or_else (maxDosesPerDay (tylenol_initial\<lparr>weight := Text 80 (Num 80),
       maxSingleMg := Text 5000 (Num 5000)\<rparr>)) (Num 4)) = Num 4"
  "parseFloat (maxDailyMg (tylenol_initial\<lparr>weight := Text 80 (Num 80),
       maxSingleMg := Text 5000 (Num 5000)\<rparr>)) = Num 4000"
  "maxDailyMg (tylenol_initial\<lparr>weight := Text 80 (Num 80), maxSingleMg := Text 5000 (Num 5000)\<rparr>)
     = Number (Num 4000)"
  by (simp_all add: tylenol_initial_def ageMonths_def or_else_def truthy_def trunc_towards_zero_def)

theorem tylenol_single_dose_cap_witness:
  "toKg (weight (tylenol_initial\<lparr>weight := Text 80 (Num 80)\<rparr>))
        (weightUnit (tylenol_initial\<lparr>weight := Text 80 (Num 80)\<rparr>)) = Some (Num 80)
   \<and> parseFloat (mgPerKg (tylenol_initial\<lparr>weight := Text 80 (Num 80)\<rparr>)) = Num 15
   \<and> parseFloat (maxSingleMg (tylenol_initial\<lparr>weight := Text 80 (Num 80)\<rparr>)) = Num 1000
   \<and> (\<exists>r. doseResult (tylenol_calculate ''t'' (tylenol_initial\<lparr>weight := Text 80 (Num 80)\<rparr>)) = Some r
         \<and> tyl_appliedSingleMg r = Num 1000 \<and> tyl_warnings r \<noteq> [])
   \<and> toKg (weight tylenol_initial) (weightUnit tylenol_initial) = Some (Num 12)
   \<and> parseFloat (mgPerKg tylenol_initial) = Num 15
   \<and> parseFloat (maxSingleMg tylenol_initial) = Num 1000
   \<and> (\<exists>r. doseResult (tylenol_calculate ''t'' tylenol_initial) = Some r
         \<and> tyl_rawMg r = Num 180 \<and> tyl_appliedSingleMg r = Num 180 \<and> tyl_warnings r = [])
   \<and> parseFloat (maxSingleMg (tylenol_initial\<lparr>weight := Text 80 (Num 80),
         maxSingleMg := Text 5000 (Num 5000)\<rparr>)) = Num 5000
   \<and> (\<exists>r. doseResult (tylenol_calculate ''t'' (tylenol_initial\<lparr>weight := Text 80 (Num 80),
               maxSingleMg := Text 5000 (Num 5000)\<rparr>)) = Some r
         \<and> tyl_appliedSingleMg r = Num 1200
         \<and> tyl_warnings r = [Daily_dose_exceeded (Num 4800) (Number (Num 4000))])"
proof -
  have a: "\<exists>r. doseResult (tylenol_calculate ''t'' (tylenol_initial\<lparr>weight := Text 80 (Num 80)\<rparr>)) = Some r
         \<and> tyl_appliedSingleMg r = Num 1000 \<and> tyl_warnings r \<noteq> []"
    using tylenol_single_dose_cap [OF tylenol_80kg_inputs, of "''t''"] by auto
  have b: "\<exists>r. doseResult (tylenol_calculate ''t'' tylenol_initial) = Some r
         \<and> tyl_rawMg r = Num 180 \<and> tyl_appliedSingleMg r = Num 180 \<and> tyl_warnings r = []"
    using tylenol_single_dose_cap [OF tylenol_12kg_inputs, of "''t''"]
    by (auto simp add: tylenol_initial_settings js_gt_def)
  have c: "\<exists>r. doseResult (tylenol_calculate ''t'' (tylenol_initial\<lparr>weight := Text 80 (Num 80),
               maxSingleMg := Text 5000 (Num 5000)\<rparr>)) = Some r
         \<and> tyl_appliedSingleMg r = Num 1200
         \<and> tyl_warnings r = [Daily_dose_exceeded (Num 4800) (Number (Num 4000))]"
    using tylenol_single_dose_cap [OF tylenol_cap5000_inputs, of "''t''"]
    by (auto simp add: tylenol_cap5000_settings tylenol_initial_settings js_gt_def)
  from a b c tylenol_80kg_inputs tylenol_12kg_inputs tylenol_cap5000_inputs(3)
  show ?thesis by blast
qed

text \<open>
  C3 as stated fails in two places. A raw dose below the cap does not make the warnings
  list empty: for a newborn of 3 kg (age 0) the raw dose is 45 mg, below the cap of
  1000 mg, and the list holds the neonate warning. And the reported dose is rounded to
  two decimals: with a cap of 33.333 mg and a raw dose of 180 mg it is 33.33 mg, not
  the cap.
\<close>

theorem tylenol_single_dose_cap_counterexample:
  "parseFloat (maxSingleMg (tylenol_initial\<lparr>age := Text 0 (Num 0), weight := Text 3 (Num 3)\<rparr>))
     = Num 1000
   \<and> map_option tyl_rawMg
     (doseResult (tylenol_calculate ''t'' (tylenol_initial\<lparr>age := Text 0 (Num 0), weight := Text 3 (Num 3)\<rparr>)))
     = Some (Num 45)
   \<and> map_option tyl_warnings
     (doseResult (tylenol_calculate ''t'' (tylenol_initial\<lparr>age := Text 0 (Num 0), weight := Text 3 (Num 3)\<rparr>)))
     = Some [Neonate]
   \<and> map_option tyl_appliedSingleMg
     (doseResult (tylenol_calculate ''t'' (tylenol_initial\<lparr>maxSingleMg := Text 33.333 (Num 33)\<rparr>)))
     = Some (Num 33.33)
   \<and> Num 33.33 \<noteq> Num 33.333"
  by (simp add: tylenol_calculate_def tylenol_initial_def toKg_def ageMonths_def or_else_def truthy_def
      trunc_towards_zero_def tylenol_formulations_def Math_min_def js_le_def js_ge_def js_gt_def isNaN_def
      Let_def)

section \<open>Validation in the nomogram calculation\<close>

lemma apap_calculate_bad_concentration:
  assumes "computedHoursSince s = Some h" "h \<noteq> NaN" "\<not> truthy (concentration_ugmL s)"
  shows "apap_calculate now s = s\<lparr>apap_toasts := apap_toasts s @ [Error_valid_concentration]\<rparr>"
  using assms by (simp add: apap_calculate_def isNaN_def Let_def)

lemma apap_calculate_bad_hours:
  assumes "computedHoursSince s = None \<or> computedHoursSince s = Some NaN"
  shows "apap_calculate now s = s\<lparr>apap_toasts := apap_toasts s @ [Error_provide_times_or_hours]\<rparr>"
  using assms by (auto simp add: apap_calculate_def isNaN_def)

text \<open>
  C4, as the code has it. When the hours since ingestion are missing or not a number,
  or the concentration is missing, not a number or zero, the calculation stops at the
  first of the two checks that fails and raises exactly one error message: the one for
  the hours if the hours are bad, otherwise the one for the concentration. No
  computation proceeds: the result and the history are unchanged.
\<close>

theorem apap_calculate_stops_at_first_problem:
  assumes "computedHoursSince s = None \<or> computedHoursSince s = Some NaN
           \<or> \<not> truthy (concentration_ugmL s)"
  shows "apap_calculate now s =
           s\<lparr>apap_toasts := apap_toasts s @
               [if computedHoursSince s = None \<or> computedHoursSince s = Some NaN
                then Error_provide_times_or_hours else Error_valid_concentration]\<rparr>
         \<and> length (apap_toasts (apap_calculate now s)) = length (apap_toasts s) + 1
         \<and> apap_result (apap_calculate now s) = apap_result s
         \<and> apap_history (apap_calculate now s) = apap_history s"
proof (cases "computedHoursSince s = None \<or> computedHoursSince s = Some NaN")
  case True
  then show ?thesis by (simp add: apap_calculate_bad_hours)
next
  case False
  then obtain h where h: "computedHoursSince s = Some h" "h \<noteq> NaN" by auto
  with assms have "\<not> truthy (concentration_ugmL s)" by auto
  with h have "apap_calculate now s
      = s\<lparr>apap_toasts := apap_toasts s @ [Error_valid_concentration]\<rparr>"
    by (rule apap_calculate_bad_concentration)
  with False show ?thesis by simp
qed

theorem apap_calculate_stops_at_first_problem_witness:
  "computedHoursSince (apap_initial\<lparr>concentrationValue := Blank\<rparr>) = None
   \<and> apap_calculate ''t'' (apap_initial\<lparr>concentrationValue := Blank\<rparr>)
       = apap_initial\<lparr>concentrationValue := Blank, apap_toasts := [Error_provide_times_or_hours]\<rparr>"
proof -
  have h: "computedHoursSince (apap_initial\<lparr>concentrationValue := Blank\<rparr>) = None"
    by (simp add: computedHoursSince_def apap_initial_def)
  show ?thesis
    using apap_calculate_stops_at_first_problem
      [of "apap_initial\<lparr>concentrationValue := Blank\<rparr>" "''t''"] h
    by (simp add: apap_initial_def)
qed

text \<open>
  C4 as stated fails: with the hours missing and the concentration missing, one error
  is raised, not two.
\<close>

theorem two_missing_fields_counterexample:
  "computedHoursSince (apap_initial\<lparr>concentrationValue := Blank\<rparr>) = None
   \<and> \<not> truthy (concentration_ugmL (apap_initial\<lparr>concentrationValue := Blank\<rparr>))
   \<and> apap_toasts (apap_calculate ''t'' (apap_initial\<lparr>concentrationValue := Blank\<rparr>))
       = [Error_provide_times_or_hours]
   \<and> length (apap_toasts (apap_calculate ''t'' (apap_initial\<lparr>concentrationValue := Blank\<rparr>))) \<noteq> 2"
  by (simp add: computedHoursSince_def concentration_ugmL_def apap_calculate_def apap_initial_def
      truthy_def)

section \<open>The opioid conversion\<close>

lemma finite_num_Num: "finite_num n \<Longrightarrow> n = Num (real_of n)"
  by (cases n) simp_all

lemma entryToOME_finite:
  assumes "finite_entry cs e"
  shows "entryToOME cs e = Num (entry_OME_value cs e)"
proof -
  from assms obtain d f c where
    "parseNumber (dose e) = Num d" "parseNumber (freqPerDay e) = Num f"
    "coeff (lookup_meta cs (drug e)) = Num c"
    unfolding finite_entry_def by (metis finite_num_Num)
  then show ?thesis
    by (simp add: entryToOME_def entry_OME_value_def spec_entry_OME_def truthy_def Let_def)
qed

lemma foldl_OME:
  assumes "\<forall>e\<in>set es. finite_entry cs e"
  shows "foldl (\<lambda>s e. js_add s (entryToOME cs e)) (Num a) es
           = Num (a + sum_list (map (entry_OME_value cs) es))"
  using assms
proof (induction es arbitrary: a)
  case Nil
  then show ?case by simp
next
  case (Cons e es)
  then have "entryToOME cs e = Num (entry_OME_value cs e)"
    by (simp add: entryToOME_finite)
  with Cons show ?case by (simp add: add.assoc)
qed

lemma calculateTotalOME_finite:
  assumes "\<forall>e\<in>set es. finite_entry cs e"
  shows "calculateTotalOME cs es = Num (sum_list (map (entry_OME_value cs) es))"
  using foldl_OME [OF assms, of 0] by (simp add: calculateTotalOME_def)

lemma parseNumber_or_else: "parseNumber (or_else f (Num 0)) = parseNumber f"
  by (cases f) (auto simp: parseNumber_def or_else_def truthy_def isNaN_def)

lemma convertOMEtoTarget_finite:
  assumes "coeff (lookup_meta cs t) = Num c" "c \<noteq> 0"
  shows "convertOMEtoTarget cs (Num ome) t =
           \<lparr>target_value = Num (spec_target_dose (unit (lookup_meta cs t)) ome c),
            target_unit = (if unit (lookup_meta cs t) = ''mcg/hr'' then ''mcg/hr'' else ''mg/day'')\<rparr>"
  using assms by (simp add: convertOMEtoTarget_def spec_target_dose_def Let_def)

lemma practicalRound_finite:
  "practicalRound \<lparr>mg = Num sm, mcg = Num sc\<rparr> (Num v) u =
     Num (let step = (if u = ''mcg/hr'' then (if sc = 0 then 25 else sc)
                      else (if sm = 0 then 5 else sm))
          in of_int \<lfloor>v / step + 1 / 2\<rfloor> * step)"
  by (simp add: practicalRound_def truthy_def Let_def)
lemma opioid_calculate_finite:
  assumes fin: "\<forall>e\<in>set (entries s). finite_entry (coefficients s) e"
    and tgt: "coeff (lookup_meta (coefficients s) (targetOpioid s)) = Num c" "c \<noteq> 0"
    and pct: "parseNumber (incompleteCrossTolerancePercent s) = Num p"
    and steps: "rounding s = \<lparr>mg = Num sm, mcg = Num sc\<rparr>"
    and pos: "0 < sum_list (map (entry_OME_value (coefficients s)) (entries s))"
  shows "\<exists>r. op_result (opioid_calculate now s) = Some r
    \<and> (let ome = sum_list (map (entry_OME_value (coefficients s)) (entries s));
            u = unit (lookup_meta (coefficients s) (targetOpioid s));
            raw = spec_target_dose u ome c;
            adjusted = raw * ((100 - p) / 100);
            step = (if u = ''mcg/hr'' then (if sc = 0 then 25 else sc)
                    else (if sm = 0 then 5 else sm))
        in target_value (op_rawTarget r) = Num raw
           \<and> op_adjustedValue r = Num (of_int \<lfloor>adjusted * 100 + 1 / 2\<rfloor> / 100)
           \<and> op_practical r = Num (of_int \<lfloor>adjusted / step + 1 / 2\<rfloor> * step))"
proof -
  let ?ome = "sum_list (map (entry_OME_value (coefficients s)) (entries s))"
  have t: "calculateTotalOME (coefficients s) (entries s) = Num ?ome"
    using fin by (rule calculateTotalOME_finite)
  have conv: "convertOMEtoTarget (coefficients s) (Num ?ome) (targetOpioid s) =
           \<lparr>target_value = Num (spec_target_dose (unit (lookup_meta (coefficients s) (targetOpioid s))) ?ome c),
            target_unit = (if unit (lookup_meta (coefficients s) (targetOpioid s)) = ''mcg/hr''
                           then ''mcg/hr'' else ''mg/day'')\<rparr>"
    using tgt by (rule convertOMEtoTarget_finite)
  show ?thesis
    unfolding opioid_calculate_def t Let_def conv parseNumber_or_else pct steps
    using pos by (simp add: truthy_def js_le_def js_sub_def practicalRound_finite Let_def)
qed

lemma opioid_calculate_nonpositive:
  assumes fin: "\<forall>e\<in>set (entries s). finite_entry (coefficients s) e"
    and nonpos: "sum_list (map (entry_OME_value (coefficients s)) (entries s)) \<le> 0"
  shows "opioid_calculate now s = s\<lparr>op_toasts := op_toasts s @ [Error_total_OME_zero]\<rparr>"
proof -
  have t: "calculateTotalOME (coefficients s) (entries s)
             = Num (sum_list (map (entry_OME_value (coefficients s)) (entries s)))"
    using fin by (rule calculateTotalOME_finite)
  show ?thesis
    unfolding opioid_calculate_def t Let_def
    using nonpos by (simp add: truthy_def js_le_def)
qed

text \<open>
  C5, as the code has it. For every regimen of entries with finite doses, frequencies
  and coefficients: each oral entry contributes dose times frequency times coefficient
  to the total, where a frequency that is blank or zero counts as 1 and a blank dose as
  0, and each transdermal entry contributes dose times 24 times coefficient. When the
  total is positive, the calculation converts it to the target's dose by the inverse
  formula (divided by 24 times the coefficient for a transdermal target, otherwise by
  the coefficient, the coefficient not being zero), multiplies the result by
  \<open>(100 - pct) / 100\<close>, and rounds that to the practical step last. When the total is
  zero or negative, the calculation raises the error "Total OME is zero" and nothing
  else: the result shown and the history stay as they were.
\<close>

theorem opioid_conversion_formula:
  assumes "\<forall>e\<in>set (entries s). finite_entry (coefficients s) e"
  shows "(\<forall>e\<in>set (entries s). entryToOME (coefficients s) e = Num (entry_OME_value (coefficients s) e))
    \<and> calculateTotalOME (coefficients s) (entries s)
        = Num (sum_list (map (entry_OME_value (coefficients s)) (entries s)))
    \<and> (0 < sum_list (map (entry_OME_value (coefficients s)) (entries s))
        \<and> coeff (lookup_meta (coefficients s) (targetOpioid s)) = Num c \<and> c \<noteq> 0
        \<and> parseNumber (incompleteCrossTolerancePercent s) = Num p
        \<and> rounding s = \<lparr>mg = Num sm, mcg = Num sc\<rparr>
        \<longrightarrow> (\<exists>r. op_result (opioid_calculate now s) = Some r
        \<and> (let ome = sum_list (map (entry_OME_value (coefficients s)) (entries s));
                u = unit (lookup_meta (coefficients s) (targetOpioid s));
                raw = spec_target_dose u ome c;
                adjusted = raw * ((100 - p) / 100);
                step = (if u = ''mcg/hr'' then (if sc = 0 then 25 else sc)
                        else (if sm = 0 then 5 else sm))
            in target_value (op_rawTarget r) = Num raw
               \<and> op_adjustedValue r = Num (of_int \<lfloor>adjusted * 100 + 1 / 2\<rfloor> / 100)
               \<and> op_practical r = Num (of_int \<lfloor>adjusted / step + 1 / 2\<rfloor> * step))))
    \<and> (sum_list (map (entry_OME_value (coefficients s)) (entries s)) \<le> 0
        \<longrightarrow> opioid_calculate now s = s\<lparr>op_toasts := op_toasts s @ [Error_total_OME_zero]\<rparr>
            \<and> op_result (opioid_calculate now s) = op_result s
            \<and> op_history (opioid_calculate now s) = op_history s)"
proof (intro conjI impI)
  show "\<forall>e\<in>set (entries s). entryToOME (coefficients s) e = Num (entry_OME_value (coefficients s) e)"
    using assms by (simp add: entryToOME_finite)
  show "calculateTotalOME (coefficients s) (entries s)
        = Num (sum_list (map (entry_OME_value (coefficients s)) (entries s)))"
    using assms by (rule calculateTotalOME_finite)
next
  assume h: "0 < sum_list (map (entry_OME_value (coefficients s)) (entries s))
        \<and> coeff (lookup_meta (coefficients s) (targetOpioid s)) = Num c \<and> c \<noteq> 0
        \<and> parseNumber (incompleteCrossTolerancePercent s) = Num p
        \<and> rounding s = \<lparr>mg = Num sm, mcg = Num sc\<rparr>"
  show "\<exists>r. op_result (opioid_calculate now s) = Some r
        \<and> (let ome = sum_list (map (entry_OME_value (coefficients s)) (entries s));
                u = unit (lookup_meta (coefficients s) (targetOpioid s));
                raw = spec_target_dose u ome c;
                adjusted = raw * ((100 - p) / 100);
                step = (if u = ''mcg/hr'' then (if sc = 0 then 25 else sc)
                        else (if sm = 0 then 5 else sm))
            in target_value (op_rawTarget r) = Num raw
               \<and> op_adjustedValue r = Num (of_int \<lfloor>adjusted * 100 + 1 / 2\<rfloor> / 100)
               \<and> op_practical r = Num (of_int \<lfloor>adjusted / step + 1 / 2\<rfloor> * step))"
    using assms h by (intro opioid_calculate_finite) simp_all
next
  assume n: "sum_list (map (entry_OME_value (coefficients s)) (entries s)) \<le> 0"
  have e: "opioid_calculate now s = s\<lparr>op_toasts := op_toasts s @ [Error_total_OME_zero]\<rparr>"
    using assms n by (rule opioid_calculate_nonpositive)
  show "opioid_calculate now s = s\<lparr>op_toasts := op_toasts s @ [Error_total_OME_zero]\<rparr>"
    by (rule e)
  show "op_result (opioid_calculate now s) = op_result s" by (simp add: e)
  show "op_history (opioid_calculate now s) = op_history s" by (simp add: e)
qed

lemma example_lookups:
  "lookup_meta defaultCoefficients ''Oral morphine (mg)'' = \<lparr>coeff = Num 1, unit = ''mg''\<rparr>"
  "lookup_meta defaultCoefficients ''Oral oxycodone (mg)'' = \<lparr>coeff = Num 1.5, unit = ''mg''\<rparr>"
  "lookup_meta defaultCoefficients ''Transdermal fentanyl (mcg/hr)''
     = \<lparr>coeff = Num 2.4, unit = ''mcg/hr''\<rparr>"
  by (simp_all add: lookup_meta_def defaultCoefficients_def)

lemma example_regimen_fields:
  "entries example_regimen = [morphine_entry, fentanyl_entry]"
  "coefficients example_regimen = defaultCoefficients"
  "targetOpioid example_regimen = ''Transdermal fentanyl (mcg/hr)''"
  "parseNumber (incompleteCrossTolerancePercent example_regimen) = Num 25"
  "rounding example_regimen = \<lparr>mg = Num 5, mcg = Num 25\<rparr>"
  by (simp_all add: example_regimen_def opioid_initial_def parseNumber_def isNaN_def)

lemma example_entries_finite:
  "finite_entry defaultCoefficients morphine_entry"
  "finite_entry defaultCoefficients fentanyl_entry"
  by (simp_all add: finite_entry_def morphine_entry_def fentanyl_entry_def example_lookups
      parseNumber_def isNaN_def)

lemma example_entry_values:
  "entry_OME_value defaultCoefficients morphine_entry = 120"
  "entry_OME_value defaultCoefficients fentanyl_entry = 1440"
  by (simp_all add: entry_OME_value_def spec_entry_OME_def morphine_entry_def fentanyl_entry_def
      example_lookups parseNumber_def isNaN_def)

lemma negative_entry_facts:
  "finite_entry defaultCoefficients negative_dose_entry"
  "entry_OME_value defaultCoefficients negative_dose_entry = - 120"
  by (simp_all add: finite_entry_def entry_OME_value_def spec_entry_OME_def negative_dose_entry_def
      example_lookups parseNumber_def isNaN_def)

theorem opioid_conversion_formula_witness:
  "finite_entry defaultCoefficients morphine_entry
   \<and> finite_entry defaultCoefficients fentanyl_entry
   \<and> entryToOME defaultCoefficients morphine_entry = Num 120
   \<and> entryToOME defaultCoefficients fentanyl_entry = Num 1440
   \<and> calculateTotalOME defaultCoefficients [morphine_entry, fentanyl_entry] = Num 1560
   \<and> (\<exists>r. op_result (opioid_calculate ''t'' example_regimen) = Some r
         \<and> target_value (op_rawTarget r) = Num (325 / 12)
         \<and> op_adjustedValue r = Num 20.31
         \<and> op_practical r = Num 25)
   \<and> finite_entry defaultCoefficients negative_dose_entry
   \<and> calculateTotalOME defaultCoefficients [negative_dose_entry] = Num (- 120)
   \<and> opioid_calculate ''t'' ((opioid_initial ''e1'')\<lparr>entries := [negative_dose_entry]\<rparr>)
       = (opioid_initial ''e1'')\<lparr>entries := [negative_dose_entry],
                                  op_toasts := [Error_total_OME_zero]\<rparr>
   \<and> op_result (opioid_calculate ''t'' ((opioid_initial ''e1'')\<lparr>entries := [negative_dose_entry]\<rparr>))
       = None"
proof -
  have fin: "\<forall>e\<in>set (entries example_regimen). finite_entry (coefficients example_regimen) e"
    by (simp add: example_regimen_fields example_entries_finite)
  have a: "entryToOME defaultCoefficients morphine_entry = Num 120
   \<and> entryToOME defaultCoefficients fentanyl_entry = Num 1440
   \<and> calculateTotalOME defaultCoefficients [morphine_entry, fentanyl_entry] = Num 1560
   \<and> (\<exists>r. op_result (opioid_calculate ''t'' example_regimen) = Some r
         \<and> target_value (op_rawTarget r) = Num (325 / 12)
         \<and> op_adjustedValue r = Num 20.31
         \<and> op_practical r = Num 25)"
    using opioid_conversion_formula [OF fin, of "2.4" 25 5 25 "''t''"]
    by (simp add: example_regimen_fields example_entry_values example_lookups
        spec_target_dose_def Let_def)
  have fin': "\<forall>e\<in>set (entries ((opioid_initial ''e1'')\<lparr>entries := [negative_dose_entry]\<rparr>)).
      finite_entry (coefficients ((opioid_initial ''e1'')\<lparr>entries := [negative_dose_entry]\<rparr>)) e"
    by (simp add: opioid_initial_def negative_entry_facts)
  have b: "calculateTotalOME defaultCoefficients [negative_dose_entry] = Num (- 120)
   \<and> opioid_calculate ''t'' ((opioid_initial ''e1'')\<lparr>entries := [negative_dose_entry]\<rparr>)
       = (opioid_initial ''e1'')\<lparr>entries := [negative_dose_entry],
                                  op_toasts := [Error_total_OME_zero]\<rparr>
   \<and> op_result (opioid_calculate ''t'' ((opioid_initial ''e1'')\<lparr>entries := [negative_dose_entry]\<rparr>))
       = None"
    using opioid_conversion_formula [OF fin', of 1 25 5 25 "''t''"]
    by (simp add: opioid_initial_def negative_entry_facts)
  from a b example_entries_finite negative_entry_facts(1) show ?thesis by blast
qed

text \<open>
  C5 as stated fails for two inputs. An oral entry of 10 mg with the frequency 0
  contributes 10, not \<open>10 * 0 * 1 = 0\<close>: the source reads the frequency as
  \<open>parseNumber(entry.freqPerDay) || 1\<close>. And for a regimen whose total is zero, here the
  one entry that \<open>addEntry\<close> appends, no target dose is computed: the calculation raises
  the error "Total OME is zero".
\<close>

theorem opioid_conversion_formula_counterexample:
  "parseNumber (dose zero_frequency_entry) = Num 10
   \<and> parseNumber (freqPerDay zero_frequency_entry) = Num 0
   \<and> lookup_meta defaultCoefficients (drug zero_frequency_entry) = \<lparr>coeff = Num 1, unit = ''mg''\<rparr>
   \<and> entryToOME defaultCoefficients zero_frequency_entry = Num 10
   \<and> spec_entry_OME ''mg'' 10 0 1 = 0
   \<and> calculateTotalOME defaultCoefficients [added_entry] = Num 0
   \<and> op_result (opioid_calculate ''t'' ((opioid_initial ''e1'')\<lparr>entries := [added_entry]\<rparr>)) = None
   \<and> op_toasts (opioid_calculate ''t'' ((opioid_initial ''e1'')\<lparr>entries := [added_entry]\<rparr>))
       = [Error_total_OME_zero]"
  by (simp add: zero_frequency_entry_def added_entry_def example_lookups parseNumber_def
      isNaN_def entryToOME_def truthy_def spec_entry_OME_def calculateTotalOME_def
      opioid_calculate_def opioid_initial_def Let_def)

section \<open>The round trip of an entry\<close>

lemma entryToOME_readings:
  assumes "parseNumber (dose e) = Num d" and "parseNumber (freqPerDay e) = Num f"
    and "coeff (lookup_meta cs (drug e)) = Num c"
  shows "entryToOME cs e =
           Num (spec_entry_OME (unit (lookup_meta cs (drug e))) d (if f = 0 then 1 else f) c)"
  using assms by (simp add: entryToOME_def spec_entry_OME_def truthy_def Let_def)

lemma convert_back:
  assumes "coeff (lookup_meta cs a) = Num c" and "0 < c"
  shows "target_value (convertOMEtoTarget cs (Num (spec_entry_OME (unit (lookup_meta cs a)) d f c)) a)
           = Num (if unit (lookup_meta cs a) = ''mcg/hr'' then d else d * f)"
  using assms by (simp add: convertOMEtoTarget_def spec_entry_OME_def Let_def)

lemma through_target:
  assumes "coeff (lookup_meta cs t) = Num ct" and "0 < ct"
  shows "entryToOME cs
           \<lparr>entry_id = i, drug = t,
            dose = Number (target_value (convertOMEtoTarget cs (Num x) t)),
            entry_unit = u, freqPerDay = Number (Num 1)\<rparr> = Num x"
  using assms
  by (simp add: entryToOME_def convertOMEtoTarget_def parseNumber_def isNaN_def truthy_def Let_def)

text \<open>
  C6, as the code has it. For every single entry whose drug has a registered positive
  coefficient, converting the entry's oral-morphine-equivalent to the original agent,
  directly or through a target agent with a positive coefficient (the target's dose
  entered as one dose per day), without the cross-tolerance reduction, returns the
  entry's dose per day: dose times frequency for an oral entry (a blank or zero
  frequency counting as 1), and the dose itself for a transdermal entry. It is the
  original dose when the frequency is 1. In exact arithmetic the equality is exact.
\<close>

theorem opioid_round_trip:
  assumes "parseNumber (dose e) = Num d" and "parseNumber (freqPerDay e) = Num f"
    and "coeff (lookup_meta cs (drug e)) = Num c" and "0 < c"
    and "coeff (lookup_meta cs t) = Num ct" and "0 < ct"
  shows "target_value (convertOMEtoTarget cs (entryToOME cs e) (drug e))
           = Num (if unit (lookup_meta cs (drug e)) = ''mcg/hr'' then d
                  else d * (if f = 0 then 1 else f))
    \<and> target_value
         (convertOMEtoTarget cs
            (entryToOME cs
               \<lparr>entry_id = i, drug = t,
                dose = Number (target_value (convertOMEtoTarget cs (entryToOME cs e) t)),
                entry_unit = u, freqPerDay = Number (Num 1)\<rparr>)
            (drug e))
           = Num (if unit (lookup_meta cs (drug e)) = ''mcg/hr'' then d
                  else d * (if f = 0 then 1 else f))"
proof -
  have ome: "entryToOME cs e =
      Num (spec_entry_OME (unit (lookup_meta cs (drug e))) d (if f = 0 then 1 else f) c)"
    using assms(1-3) by (rule entryToOME_readings)
  have conv_back: "target_value (convertOMEtoTarget cs
        (Num (spec_entry_OME (unit (lookup_meta cs (drug e))) d (if f = 0 then 1 else f) c)) (drug e))
      = Num (if unit (lookup_meta cs (drug e)) = ''mcg/hr'' then d else d * (if f = 0 then 1 else f))"
    using assms(3,4) by (rule convert_back)
  have via: "entryToOME cs
           \<lparr>entry_id = i, drug = t,
            dose = Number (target_value (convertOMEtoTarget cs
              (Num (spec_entry_OME (unit (lookup_meta cs (drug e))) d (if f = 0 then 1 else f) c)) t)),
            entry_unit = u, freqPerDay = Number (Num 1)\<rparr>
      = Num (spec_entry_OME (unit (lookup_meta cs (drug e))) d (if f = 0 then 1 else f) c)"
    using assms(5,6) by (rule through_target)
  show ?thesis
    unfolding ome via conv_back by simp
qed

lemma morphine_entry_readings:
  "parseNumber (dose morphine_entry) = Num 30"
  "parseNumber (freqPerDay morphine_entry) = Num 4"
  "coeff (lookup_meta defaultCoefficients (drug morphine_entry)) = Num 1"
  "coeff (lookup_meta defaultCoefficients ''Oral oxycodone (mg)'') = Num 1.5"
  "unit (lookup_meta defaultCoefficients (drug morphine_entry)) = ''mg''"
  by (simp_all add: morphine_entry_def example_lookups parseNumber_def isNaN_def)

lemma fentanyl_entry_readings:
  "parseNumber (dose fentanyl_entry) = Num 25"
  "parseNumber (freqPerDay fentanyl_entry) = Num 1"
  "coeff (lookup_meta defaultCoefficients (drug fentanyl_entry)) = Num 2.4"
  "unit (lookup_meta defaultCoefficients (drug fentanyl_entry)) = ''mcg/hr''"
  by (simp_all add: fentanyl_entry_def example_lookups parseNumber_def isNaN_def)

theorem opioid_round_trip_witness:
  "parseNumber (dose fentanyl_entry) = Num 25
   \<and> parseNumber (freqPerDay fentanyl_entry) = Num 1
   \<and> coeff (lookup_meta defaultCoefficients (drug fentanyl_entry)) = Num 2.4
   \<and> coeff (lookup_meta defaultCoefficients ''Oral oxycodone (mg)'') = Num 1.5
   \<and> target_value (convertOMEtoTarget defaultCoefficients
         (entryToOME defaultCoefficients fentanyl_entry) (drug fentanyl_entry)) = Num 25
   \<and> target_value
         (convertOMEtoTarget defaultCoefficients
            (entryToOME defaultCoefficients
               \<lparr>entry_id = ''e5'', drug = ''Oral oxycodone (mg)'',
                dose = Number (target_value (convertOMEtoTarget defaultCoefficients
                         (entryToOME defaultCoefficients fentanyl_entry) ''Oral oxycodone (mg)'')),
                entry_unit = ''mg'', freqPerDay = Number (Num 1)\<rparr>)
            (drug fentanyl_entry)) = Num 25
   \<and> parseNumber (dose morphine_entry) = Num 30
   \<and> parseNumber (freqPerDay morphine_entry) = Num 4
   \<and> coeff (lookup_meta defaultCoefficients (drug morphine_entry)) = Num 1
   \<and> target_value (convertOMEtoTarget defaultCoefficients
         (entryToOME defaultCoefficients morphine_entry) (drug morphine_entry)) = Num (30 * 4)"
proof -
  have c1: "(0::real) < 2.4" and c2: "(0::real) < 1.5" and c3: "(0::real) < 1" by simp_all
  from opioid_round_trip
    [OF fentanyl_entry_readings(1) fentanyl_entry_readings(2) fentanyl_entry_readings(3)
        c1 morphine_entry_readings(4) c2, of "''e5''" "''mg''"]
  have a: "target_value (convertOMEtoTarget defaultCoefficients
         (entryToOME defaultCoefficients fentanyl_entry) (drug fentanyl_entry)) = Num 25
   \<and> target_value
         (convertOMEtoTarget defaultCoefficients
            (entryToOME defaultCoefficients
               \<lparr>entry_id = ''e5'', drug = ''Oral oxycodone (mg)'',
                dose = Number (target_value (convertOMEtoTarget defaultCoefficients
                         (entryToOME defaultCoefficients fentanyl_entry) ''Oral oxycodone (mg)'')),
                entry_unit = ''mg'', freqPerDay = Number (Num 1)\<rparr>)
            (drug fentanyl_entry)) = Num 25"
    by (simp add: fentanyl_entry_readings)
  from opioid_round_trip
    [OF morphine_entry_readings(1) morphine_entry_readings(2) morphine_entry_readings(3)
        c3 morphine_entry_readings(4) c2, of "''e5''" "''mg''"]
  have b: "target_value (convertOMEtoTarget defaultCoefficients
         (entryToOME defaultCoefficients morphine_entry) (drug morphine_entry)) = Num (30 * 4)"
    by (simp add: morphine_entry_readings)
  from a b fentanyl_entry_readings morphine_entry_readings show ?thesis
    by (simp only: simp_thms)
qed

text \<open>
  C6 as stated fails: the entry the component starts with, 30 mg of oral morphine four
  times a day, comes back from the round trip, directly and through oxycodone, as
  120 mg (per day), not as the dose of 30 mg.
\<close>

theorem opioid_round_trip_counterexample:
  "parseNumber (dose morphine_entry) = Num 30
   \<and> coeff (lookup_meta defaultCoefficients (drug morphine_entry)) = Num 1
   \<and> coeff (lookup_meta defaultCoefficients ''Oral oxycodone (mg)'') = Num 1.5
   \<and> target_value (convertOMEtoTarget defaultCoefficients
         (entryToOME defaultCoefficients morphine_entry) (drug morphine_entry)) = Num 120
   \<and> target_value (convertOMEtoTarget defaultCoefficients
         (entryToOME defaultCoefficients morphine_entry) ''Oral oxycodone (mg)'') = Num 80
   \<and> target_value
         (convertOMEtoTarget defaultCoefficients
            (entryToOME defaultCoefficients
               \<lparr>entry_id = ''e5'', drug = ''Oral oxycodone (mg)'', dose = Number (Num 80),
                entry_unit = ''mg'', freqPerDay = Number (Num 1)\<rparr>)
            (drug morphine_entry)) = Num 120
   \<and> \<bar>120 - 30\<bar> > (1::real)"
  by (simp add: morphine_entry_def example_lookups parseNumber_def isNaN_def entryToOME_def
      convertOMEtoTarget_def truthy_def Let_def)

section \<open>Unparsable concentrations\<close>







section \<open>Negative weights in the prednisolone calculation\<close>

lemma toKg_prednisolone_negative:
  "toKg_prednisolone (Text (- 5) (Num (- 5))) ''kg'' = Some (Num (- 5))"
  by (simp add: toKg_prednisolone_def truthy_def isNaN_def)

lemma toKg_negative: "toKg (Text (- 5) (Num (- 5))) ''kg'' = None"
  by (simp add: toKg_def truthy_def js_le_def)

lemma selected_preset_initial:
  "selected_preset (prednisolone_initial\<lparr>p_weight := w\<rparr>)
     = Some \<lparr>label = ''Asthma exacerbation (oral)'', preset_mgPerKg = Number (Num 1),
         preset_maxSingleMg = Number (Num 40), freq = ''Once daily or divided''\<rparr>"
  by (simp add: selected_preset_def prednisolone_initial_def defaultPresets_def)

lemma formulation_initial:
  "map_of (formulations (prednisolone_initial\<lparr>p_weight := w\<rparr>))
     (formulationKey (prednisolone_initial\<lparr>p_weight := w\<rparr>)) = Some (Syrup (Num 5))"
  by (simp add: prednisolone_initial_def prednisolone_formulations_def)

text \<open>
  C8. A weight of -5 kg is outside the bounds of a weight. The prednisolone component's
  \<open>toKg\<close> tests \<open>!n || isNaN(n)\<close> where every other \<open>toKg\<close> of the repository tests
  \<open>!n || n <= 0\<close>, so it accepts the weight, and the calculation stores a result with
  a dose of -5 mg and raises the success message.
\<close>

theorem prednisolone_negative_weight_gives_dose:
  "toKg_prednisolone (Text (- 5) (Num (- 5))) ''kg'' = Some (Num (- 5))
   \<and> toKg (Text (- 5) (Num (- 5))) ''kg'' = None
   \<and> (let res =
          \<lparr>pr_timestamp = ''t'', pr_age = Number (Num 4), pr_ageUnit = ''years'',
           pr_weightKg = Num (- 5), pr_preset = ''Asthma exacerbation (oral)'',
           pr_mgPerKg = Num 1, pr_rawSingleMg = Num (- 5),
           pr_appliedSingleMg = Num (- 5), pr_frequency = ''Once daily or divided'',
           pr_mlPerDose = Some (Num (- 5)), pr_tabletsPerDose = None,
           pr_formulation = ''Syrup 5 mg/5 mL'', pr_warnings = [Very_low_weight]\<rparr>
        in prednisolone_calculate ''t'' (prednisolone_initial\<lparr>p_weight := Text (- 5) (Num (- 5))\<rparr>)
             = Inr (prednisolone_initial
                     \<lparr>p_weight := Text (- 5) (Num (- 5)),
                      p_result := Some res,
                      p_history := [res],
                      p_toasts := [Success_calculated]\<rparr>))"
proof -
  have w: "toKg_prednisolone (p_weight (prednisolone_initial\<lparr>p_weight := Text (- 5) (Num (- 5))\<rparr>))
             (p_weightUnit (prednisolone_initial\<lparr>p_weight := Text (- 5) (Num (- 5))\<rparr>))
           = Some (Num (- 5))"
    by (simp add: prednisolone_initial_def toKg_prednisolone_negative)
  have c: "(let res =
          \<lparr>pr_timestamp = ''t'', pr_age = Number (Num 4), pr_ageUnit = ''years'',
           pr_weightKg = Num (- 5), pr_preset = ''Asthma exacerbation (oral)'',
           pr_mgPerKg = Num 1, pr_rawSingleMg = Num (- 5),
           pr_appliedSingleMg = Num (- 5), pr_frequency = ''Once daily or divided'',
           pr_mlPerDose = Some (Num (- 5)), pr_tabletsPerDose = None,
           pr_formulation = ''Syrup 5 mg/5 mL'', pr_warnings = [Very_low_weight]\<rparr>
        in prednisolone_calculate ''t'' (prednisolone_initial\<lparr>p_weight := Text (- 5) (Num (- 5))\<rparr>)
             = Inr (prednisolone_initial
                     \<lparr>p_weight := Text (- 5) (Num (- 5)),
                      p_result := Some res,
                      p_history := [res],
                      p_toasts := [Success_calculated]\<rparr>))"
    unfolding prednisolone_calculate_def w selected_preset_initial formulation_initial
    by (simp add: prednisolone_initial_def truthy_def js_le_def js_gt_def Math_min_def isNaN_def
        Let_def)
  from toKg_prednisolone_negative toKg_negative c show ?thesis by (simp only: simp_thms)
qed

theorem prednisolone_negative_weight_gives_dose_witness:
  "\<exists>s'. prednisolone_calculate ''t'' (prednisolone_initial\<lparr>p_weight := Text (- 5) (Num (- 5))\<rparr>)
           = Inr s'
        \<and> map_option pr_appliedSingleMg (p_result s') = Some (Num (- 5))
        \<and> p_toasts s' = [Success_calculated]"
  using prednisolone_negative_weight_gives_dose by (simp add: Let_def)

section \<open>Rounding to a step\<close>

text \<open>
  C9. For every value and every step that is missing, non-numeric (\<open>NaN\<close>) or not
  positive, \<open>roundTo\<close> falls back to two-decimal rounding, \<open>round(v * 100) / 100\<close>,
  and does not divide by the step; for every other step it returns
  \<open>round(v / step) * step\<close>. The second conjunct reads the same for a finite value and
  a finite step as real arithmetic.
\<close>

theorem roundTo_step:
  "roundTo (Some v) step =
     Some (case step of
             None \<Rightarrow> js_div (Math_round (js_mul v (Num 100))) (Num 100)
           | Some st \<Rightarrow>
               if st = NaN \<or> js_le st (Num 0)
               then js_div (Math_round (js_mul v (Num 100))) (Num 100)
               else js_mul (Math_round (js_div v st)) st)
   \<and> roundTo (Some (Num x)) (Some (Num t)) =
     Some (Num (if t \<le> 0 then of_int \<lfloor>x * 100 + 1 / 2\<rfloor> / 100
                else of_int \<lfloor>x / t + 1 / 2\<rfloor> * t))"
proof
  show "roundTo (Some v) step =
     Some (case step of
             None \<Rightarrow> js_div (Math_round (js_mul v (Num 100))) (Num 100)
           | Some st \<Rightarrow>
               if st = NaN \<or> js_le st (Num 0)
               then js_div (Math_round (js_mul v (Num 100))) (Num 100)
               else js_mul (Math_round (js_div v st)) st)"
  proof (cases "v = NaN")
    case True
    then show ?thesis by (cases step) (auto simp: isNaN_def)
  next
    case False
    then show ?thesis
      by (cases step) (auto simp: isNaN_def truthy_def js_le_def)
  qed
  show "roundTo (Some (Num x)) (Some (Num t)) =
     Some (Num (if t \<le> 0 then of_int \<lfloor>x * 100 + 1 / 2\<rfloor> / 100
                else of_int \<lfloor>x / t + 1 / 2\<rfloor> * t))"
    by (auto simp: isNaN_def truthy_def js_le_def)
qed

theorem roundTo_step_witness:
  "roundTo (Some (Num 7.2)) (Some (Num 0)) = Some (Num 7.2)
   \<and> roundTo (Some (Num 7.2)) (Some (Num (- 1))) = Some (Num 7.2)
   \<and> roundTo (Some (Num 7.2)) (Some NaN) = Some (Num 7.2)
   \<and> roundTo (Some (Num 7.2)) None = Some (Num 7.2)
   \<and> roundTo (Some (Num 7.2)) (Some (Num 0.5)) = Some (Num 7)"
proof -
  have a: "roundTo (Some (Num 7.2)) (Some (Num 0)) = Some (Num 7.2)"
    using roundTo_step [of "Num 7.2" "Some (Num 0)" "7.2" "0"]
    by (simp add: js_le_def del: roundTo.simps)
  have b: "roundTo (Some (Num 7.2)) (Some (Num (- 1))) = Some (Num 7.2)"
    using roundTo_step [of "Num 7.2" "Some (Num (- 1))" "7.2" "- 1"]
    by (simp add: js_le_def del: roundTo.simps)
  have c: "roundTo (Some (Num 7.2)) (Some NaN) = Some (Num 7.2)"
    using roundTo_step [of "Num 7.2" "Some NaN" "7.2" "0"]
    by (simp add: js_le_def del: roundTo.simps)
  have d: "roundTo (Some (Num 7.2)) None = Some (Num 7.2)"
    using roundTo_step [of "Num 7.2" None "7.2" "0"]
    by (simp add: js_le_def del: roundTo.simps)
  have e: "roundTo (Some (Num 7.2)) (Some (Num 0.5)) = Some (Num 7)"
    using roundTo_step [of "Num 7.2" "Some (Num 0.5)" "7.2" "0.5"]
    by (simp add: js_le_def del: roundTo.simps)
  from a b c d e show ?thesis by (simp only: simp_thms)
qed

section \<open>A target with coefficient zero\<close>

text \<open>
  C10. The target conversion divides the total by the target's coefficient without a
  guard: for every positive total, the target "Other (custom)", whose registered
  coefficient is 0, makes \<open>convertOMEtoTarget\<close> return \<open>Infinity\<close> (in mg/day).
\<close>

theorem zero_coefficient_gives_infinity:
  "js_gt totalOME (Num 0) \<Longrightarrow>
     convertOMEtoTarget defaultCoefficients totalOME ''Other (custom)''
       = \<lparr>target_value = PInf, target_unit = ''mg/day''\<rparr>"
  by (cases totalOME)
     (simp_all add: js_gt_def convertOMEtoTarget_def lookup_meta_def defaultCoefficients_def)

theorem zero_coefficient_gives_infinity_witness:
  "js_gt (Num 120) (Num 0) \<and>
     convertOMEtoTarget defaultCoefficients (Num 120) ''Other (custom)''
       = \<lparr>target_value = PInf, target_unit = ''mg/day''\<rparr>"
  using zero_coefficient_gives_infinity [of "Num 120"] by (simp add: js_gt_def)

end
